theory Spec2Isabelle
  imports Complex_Main
begin

section \<open>Numbers and values of the JavaScript runtime\<close>

text \<open>
  The program is a single TypeScript module, \<^verbatim>\<open>src/index.tsx\<close>. Its data are plain
  JavaScript values. A JavaScript number is modelled as an exact rational, \<open>NaN\<close>, or one
  of the two infinities: the rounding of binary floating point and the sign of zero are
  not modelled. The arithmetic below is that of the program where the program's own
  arithmetic is exact: on whole numbers whose magnitudes sum to \<open>2^46\<close> at most, which is
  where marks live. There every partial sum of the program is a whole number below
  \<open>2^53\<close>, so its sums are the sums of the model in whatever order they are taken; its
  quotient by 5 is the floating-point number nearest to the rational of the model and
  closer to it than \<open>0.001\<close>, so that \<^verbatim>\<open>toFixed(2)\<close> prints that rational and \<^verbatim>\<open>Number\<close>
  reads the same floating-point number back; and the comparisons with the grade
  thresholds come out the same. What is stated of totals and percentages is stated on
  that range; on marks with a fractional part the program rounds, and the model says
  nothing of it.
\<close>

datatype jsnum = NaN | NegInf | Fin rat | PosInf

text \<open>The operator \<^verbatim>\<open>+\<close> on two numbers.\<close>

instantiation jsnum :: comm_monoid_add
begin

definition zero_jsnum :: jsnum where
  "zero_jsnum = Fin 0"

fun plus_jsnum :: "jsnum \<Rightarrow> jsnum \<Rightarrow> jsnum" where
  "plus_jsnum (Fin a) (Fin b) = Fin (a + b)"
| "plus_jsnum NaN _ = NaN"
| "plus_jsnum _ NaN = NaN"
| "plus_jsnum PosInf NegInf = NaN"
| "plus_jsnum NegInf PosInf = NaN"
| "plus_jsnum PosInf _ = PosInf"
| "plus_jsnum _ PosInf = PosInf"
| "plus_jsnum NegInf _ = NegInf"
| "plus_jsnum _ NegInf = NegInf"

instance
proof
  fix x y z :: jsnum
  show "x + y = y + x"
    by (cases x; cases y; simp)
  show "x + y + z = x + (y + z)"
    by (cases x; cases y; cases z; simp)
  show "0 + x = x"
    unfolding zero_jsnum_def by (cases x; simp)
qed

end

text \<open>\<^verbatim>\<open>x >= c\<close> and \<^verbatim>\<open>x / c\<close> for a finite literal \<open>c\<close> (positive, for the division).\<close>

definition ge_num :: "jsnum \<Rightarrow> rat \<Rightarrow> bool" where
  "ge_num x c = (case x of Fin r \<Rightarrow> c \<le> r | PosInf \<Rightarrow> True | NegInf \<Rightarrow> False | NaN \<Rightarrow> False)"

definition div_num :: "jsnum \<Rightarrow> rat \<Rightarrow> jsnum" where
  "div_num x c = (case x of Fin r \<Rightarrow> Fin (r / c) | PosInf \<Rightarrow> PosInf | NegInf \<Rightarrow> NegInf | NaN \<Rightarrow> NaN)"

text \<open>\<^verbatim>\<open>x || d\<close> on numbers: zero and \<open>NaN\<close> are the falsy numbers.\<close>

definition or_num :: "jsnum \<Rightarrow> jsnum \<Rightarrow> jsnum" where
  "or_num x d = (if x = NaN \<or> x = Fin 0 then d else x)"

text \<open>
  \<^verbatim>\<open>Number(x.toFixed(2))\<close>. \<^verbatim>\<open>toFixed\<close> prints a value that is not finite by name, a
  value of magnitude \<open>10^21\<close> or more as \<^verbatim>\<open>String(x)\<close>, and otherwise the decimal
  \<open>n / 100\<close> for the integer \<open>n\<close> nearest to \<open>100 * |x|\<close> (the larger one on a tie), with
  the sign of \<open>x\<close> in front; \<^verbatim>\<open>Number\<close> reads the printed text back.
\<close>

definition nearest_hundredth :: "rat \<Rightarrow> rat" where
  "nearest_hundredth x = of_int \<lfloor>x * 100 + 1 / 2\<rfloor> / 100"

definition Number_toFixed2 :: "jsnum \<Rightarrow> jsnum" where
  "Number_toFixed2 x =
     (case x of
        Fin r \<Rightarrow>
          (if 10 ^ 21 \<le> \<bar>r\<bar> then Fin r
           else if r < 0 then Fin (- nearest_hundredth (- r))
           else Fin (nearest_hundredth r))
      | PosInf \<Rightarrow> PosInf
      | NegInf \<Rightarrow> NegInf
      | NaN \<Rightarrow> NaN)"

text \<open>
  What the program can throw: the syntax error of \<^verbatim>\<open>JSON.parse\<close>, the type error of the
  language, and any other exception, kept by its message.
\<close>

datatype error = SyntaxError | TypeError | Thrown string

text \<open>
  The values a property of a marks object can hold: the primitive values of JavaScript,
  and references to objects (arrays and functions among them). \<^verbatim>\<open>Number(v)\<close> converts a
  value to a number, or throws: it throws a type error on a symbol, and on an object
  whatever the conversion of that object to a primitive throws. Two conversions belong
  to the engine and are parameters of the model, in a record \<open>rt\<close>: how a string reads
  as a number (\<open>StringToNumber\<close> of the language standard), and what number, or what
  exception, an object converts to (\<open>ToPrimitive\<close> followed by \<open>ToNumber\<close>).
\<close>

datatype jsval =
  JUndefined | JNull | JBool bool | JNum jsnum | JBigInt int | JStr string | JSymbol
  | JObject nat

record engine =
  StringToNumber :: "string \<Rightarrow> jsnum"
  ObjectToNumber :: "nat \<Rightarrow> error + jsnum"

fun Number :: "engine \<Rightarrow> jsval \<Rightarrow> error + jsnum" where
  "Number rt JUndefined = Inr NaN"
| "Number rt JNull = Inr (Fin 0)"
| "Number rt (JBool b) = Inr (if b then Fin 1 else Fin 0)"
| "Number rt (JNum n) = Inr n"
| "Number rt (JBigInt i) = Inr (Fin (of_int i))"
| "Number rt (JStr s) = Inr (StringToNumber rt s)"
| "Number rt JSymbol = Inl TypeError"
| "Number rt (JObject r) = ObjectToNumber rt r"

text \<open>
  An object is the list of its own properties in enumeration order, each key once.
  \<^verbatim>\<open>Object.values\<close> lists the values in that order.
\<close>

type_synonym jsobj = "(string \<times> jsval) list"

definition Object_values :: "jsobj \<Rightarrow> jsval list" where
  "Object_values obj = map snd obj"

text \<open>\<^verbatim>\<open>s || d\<close> on an optional string: \<^verbatim>\<open>undefined\<close> and the empty string are falsy.\<close>

definition or_str :: "string option \<Rightarrow> string \<Rightarrow> string" where
  "or_str s d = (case s of None \<Rightarrow> d | Some t \<Rightarrow> if t = [] then d else t)"

section \<open>The interfaces\<close>

text \<open>
  \<^verbatim>\<open>interface Student\<close> and \<^verbatim>\<open>interface Exam\<close>. The fields \<^verbatim>\<open>id\<close> and \<^verbatim>\<open>name\<close>, which
  both records have, carry a suffix, and so does \<^verbatim>\<open>total\<close>, a name HOL uses. The marks
  are kept as the object they are at run time: the normalizer iterates over whatever
  properties the object has.
\<close>

record student =
  id_s :: string
  name_s :: string
  rollNo :: string
  className :: string
  examName :: string
  marks :: jsobj
  total_s :: jsnum
  percentage :: jsnum
  grade :: string

record exam =
  id_e :: string
  name_e :: string
  createdAt :: string

text \<open>
  The argument of the normalizer, a student record with every field optional. Its
  fields \<^verbatim>\<open>total\<close>, \<^verbatim>\<open>percentage\<close> and \<^verbatim>\<open>grade\<close> are left out: the normalizer overwrites
  them without reading them.
\<close>

record partial_student =
  id_p :: "string option"
  name_p :: "string option"
  rollNo_p :: "string option"
  className_p :: "string option"
  examName_p :: "string option"
  marks_p :: "jsobj option"

text \<open>A student record read as an argument of the normalizer: every field is there.\<close>

definition as_partial :: "student \<Rightarrow> partial_student" where
  "as_partial s =
     \<lparr>id_p = Some (id_s s), name_p = Some (name_s s), rollNo_p = Some (rollNo s),
      className_p = Some (className s), examName_p = Some (examName s),
      marks_p = Some (marks s)\<rparr>"

text \<open>The object \<^verbatim>\<open>{}\<close>, with none of the fields.\<close>

definition no_fields :: partial_student where
  "no_fields =
     \<lparr>id_p = None, name_p = None, rollNo_p = None, className_p = None, examName_p = None,
      marks_p = None\<rparr>"

text \<open>
  What \<^verbatim>\<open>JSON.parse\<close> returns where the program expects a partial student record: an
  object (an array is one, with none of the fields), \<^verbatim>\<open>null\<close>, or a primitive value (a
  number, a string or a boolean).
\<close>

datatype parsed = Object partial_student | Null | Primitive


section \<open>Utils: the grade and the normalizer\<close>

definition calculateGrade :: "jsnum \<Rightarrow> string" where
  "calculateGrade percentage' =
     (if ge_num percentage' 90 then ''A+''
      else if ge_num percentage' 80 then ''A''
      else if ge_num percentage' 70 then ''B''
      else if ge_num percentage' 55 then ''C''
      else if ge_num percentage' 35 then ''D''
      else ''F'')"

definition subjects :: "string list" where
  "subjects = [''math'', ''science'', ''english'', ''history'', ''computer'']"

text \<open>The literal \<^verbatim>\<open>{ math: 0, science: 0, english: 0, history: 0, computer: 0 }\<close>.\<close>

definition zero_marks :: jsobj where
  "zero_marks =
     [(''math'', JNum (Fin 0)), (''science'', JNum (Fin 0)), (''english'', JNum (Fin 0)),
      (''history'', JNum (Fin 0)), (''computer'', JNum (Fin 0))]"

text \<open>
  The callback of \<^verbatim>\<open>reduce\<close>, \<^verbatim>\<open>(a, b) => a + (Number(b) || 0)\<close>, with the exception that
  \<^verbatim>\<open>Number\<close> may throw: once it is thrown, the reduction is over.
\<close>

definition add_mark :: "engine \<Rightarrow> error + jsnum \<Rightarrow> jsval \<Rightarrow> error + jsnum" where
  "add_mark rt acc b =
     (case acc of
        Inl e \<Rightarrow> Inl e
      | Inr a \<Rightarrow> (case Number rt b of Inl e \<Rightarrow> Inl e | Inr x \<Rightarrow> Inr (a + or_num x 0)))"

text \<open>
  \<^verbatim>\<open>processStudentData\<close>. Its result is the record, or the exception thrown while the
  total is computed. The argument is an object, as at both call sites, which pass an
  object literal. The identifier that \<^verbatim>\<open>crypto.randomUUID()\<close> would return is the
  argument \<open>uuid\<close>.
\<close>

definition processStudentData :: "engine \<Rightarrow> string \<Rightarrow> partial_student \<Rightarrow> error + student" where
  "processStudentData rt uuid data =
     (let m = (case marks_p data of Some obj \<Rightarrow> obj | None \<Rightarrow> zero_marks)
      in case foldl (add_mark rt) (Inr 0) (Object_values m) of
           Inl e \<Rightarrow> Inl e
         | Inr total' \<Rightarrow>
             (let percentage' = Number_toFixed2 (div_num total' 5)
              in Inr \<lparr>id_s = or_str (id_p data) uuid,
                      name_s = or_str (name_p data) [],
                      rollNo = or_str (rollNo_p data) [],
                      className = or_str (className_p data) [],
                      examName = or_str (examName_p data) ''Standard Exam'',
                      marks = m,
                      total_s = total',
                      percentage = percentage',
                      grade = calculateGrade percentage'\<rparr>))"

section \<open>Strings\<close>

text \<open>
  A string is the list of its code units, taken below 256. On that range
  \<^verbatim>\<open>String.prototype.trim\<close> strips the code units 9 to 13, 32 and 160 from both ends, and
  \<^verbatim>\<open>toLowerCase\<close> moves the letters A to Z and the capital letters of Latin-1 (192 to 222
  but 215, the multiplication sign) up by 32.
\<close>

definition isWhiteSpace :: "char \<Rightarrow> bool" where
  "isWhiteSpace c = (of_char c \<in> {9, 10, 11, 12, 13, 32, 160 :: nat})"

definition trim :: "string \<Rightarrow> string" where
  "trim s = rev (dropWhile isWhiteSpace (rev (dropWhile isWhiteSpace s)))"

definition lower_char :: "char \<Rightarrow> char" where
  "lower_char c =
     (let n = of_char c :: nat
      in if (65 \<le> n \<and> n \<le> 90) \<or> (192 \<le> n \<and> n \<le> 222 \<and> n \<noteq> 215) then char_of (n + 32) else c)"

definition toLowerCase :: "string \<Rightarrow> string" where
  "toLowerCase s = map lower_char s"

section \<open>The state of the application and its handlers\<close>

text \<open>
  The state that \<^verbatim>\<open>App\<close> holds with \<^verbatim>\<open>useState\<close>. A handler is a function from the state
  in which it is called to the state after it: the setters it calls take effect
  together, at the next rendering.
\<close>

record app =
  page :: string
  isAdmin :: bool
  students :: "student list"
  exams :: "exam list"
  selected :: "student option"

definition initial_app :: app where
  "initial_app = \<lparr>page = ''landing'', isAdmin = False, students = [], exams = [], selected = None\<rparr>"



text \<open>The answer to \<^verbatim>\<open>confirm('Delete record?')\<close> is the argument \<open>confirmed\<close>.\<close>

definition onDeleteStudent :: "bool \<Rightarrow> string \<Rightarrow> app \<Rightarrow> app" where
  "onDeleteStudent confirmed i a =
     (if confirmed then a\<lparr>students := filter (\<lambda>s. id_s s \<noteq> i) (students a)\<rparr> else a)"

text \<open>The fresh identifier and the time stamp of the new exam are arguments.\<close>

definition onAddExam :: "string \<Rightarrow> string \<Rightarrow> string \<Rightarrow> app \<Rightarrow> app" where
  "onAddExam uuid now n a = a\<lparr>exams := exams a @ [\<lparr>id_e = uuid, name_e = n, createdAt = now\<rparr>]\<rparr>"

text \<open>
  \<^verbatim>\<open>ex?.name\<close> is \<^verbatim>\<open>undefined\<close> when no exam has the identifier: an optional string, which
  no exam name of a student equals.
\<close>

definition onDeleteExam :: "string \<Rightarrow> app \<Rightarrow> app" where
  "onDeleteExam i a =
     (let ex = find (\<lambda>e. id_e e = i) (exams a)
      in a\<lparr>exams := filter (\<lambda>e. id_e e \<noteq> i) (exams a),
           students := filter (\<lambda>s. Some (examName s) \<noteq> map_option name_e ex) (students a)\<rparr>)"

text \<open>
  \<^verbatim>\<open>onCheckResult\<close> returns the new state and the text of the alert it shows, if any.
\<close>

definition onCheckResult :: "string \<Rightarrow> string \<Rightarrow> app \<Rightarrow> app \<times> string option" where
  "onCheckResult r ex a =
     (case find (\<lambda>st. toLowerCase (trim (rollNo st)) = toLowerCase (trim r) \<and> examName st = ex)
             (students a) of
        Some s \<Rightarrow> (a\<lparr>selected := Some s, page := ''result''\<rparr>, None)
      | None \<Rightarrow> (a, Some ''Record not found.''))"

subsection \<open>The dashboard\<close>

text \<open>
  The state of \<^verbatim>\<open>AdminDashboard\<close> that the entry form and the scanner touch, and the
  submission of the form. The form data are whatever the scanner delivered. The
  submission reads \<^verbatim>\<open>formData.examName\<close> only when the current exam gives no name, and
  that read throws a type error when the form data are \<^verbatim>\<open>null\<close>. Its result is the state
  after it, or the exception that left it, with the state as it was.
\<close>

record dashboard =
  currentExam :: "exam option"
  showStudentModal :: bool
  showScanner :: bool
  editingId :: "string option"
  formData :: parsed


definition onScanComplete :: "parsed \<Rightarrow> dashboard \<Rightarrow> dashboard" where
  "onScanComplete d dash = dash\<lparr>formData := d, showScanner := False, showStudentModal := True\<rparr>"

section \<open>Persistence\<close>

text \<open>
  The effect that \<^verbatim>\<open>App\<close> runs once when it is mounted. The two storages map a key to the
  string kept under it. \<^verbatim>\<open>JSON.parse\<close> is a parameter for each collection: it returns the
  collection the text stands for, or nothing where the runtime throws a \<^verbatim>\<open>SyntaxError\<close>.
  The effect has no handler for that exception, so its result is either the exception or
  the state after it.
\<close>

record storage =
  localStorage :: "string \<Rightarrow> string option"
  sessionStorage :: "string \<Rightarrow> string option"

text \<open>\<^verbatim>\<open>if (s) set(JSON.parse(s))\<close>: a missing item and the empty string are falsy.\<close>

definition load_item :: "(string \<Rightarrow> 'a option) \<Rightarrow> string option \<Rightarrow> 'a \<Rightarrow> error + 'a" where
  "load_item parse s current =
     (case s of
        None \<Rightarrow> Inr current
      | Some t \<Rightarrow>
          if t = [] then Inr current
          else (case parse t of None \<Rightarrow> Inl SyntaxError | Some v \<Rightarrow> Inr v))"

definition App_mount ::
  "(string \<Rightarrow> student list option) \<Rightarrow> (string \<Rightarrow> exam list option) \<Rightarrow> storage \<Rightarrow> app \<Rightarrow> error + app" where
  "App_mount parse_students parse_exams st a =
     (let s = localStorage st ''student_db'';
          e = localStorage st ''exam_db''
      in case load_item parse_students s (students a) of
           Inl err \<Rightarrow> Inl err
         | Inr ss \<Rightarrow>
             (case load_item parse_exams e (exams a) of
                Inl err \<Rightarrow> Inl err
              | Inr es \<Rightarrow>
                  Inr (a\<lparr>students := ss, exams := es,
                         isAdmin := (if sessionStorage st ''is_admin'' = Some ''true'' then True
                                     else isAdmin a)\<rparr>)))"

section \<open>The extraction client and the scanner\<close>

text \<open>
  The extraction service is a parameter: \<open>generateContent\<close> maps the image to the text
  of the response, if it has any, or to the exception it is rejected with. \<^verbatim>\<open>JSON.parse\<close>
  is a parameter again: it returns what the text stands for, or nothing where it throws.
\<close>

definition extractStudentDetailsFromImage ::
  "(string \<Rightarrow> error + string option) \<Rightarrow> (string \<Rightarrow> parsed option) \<Rightarrow> string \<Rightarrow> error + parsed" where
  "extractStudentDetailsFromImage generateContent parse base64Image =
     (case generateContent base64Image of
        Inl err \<Rightarrow> Inl err
      | Inr text' \<Rightarrow>
          (case parse (or_str text' ''{}'') of
             None \<Rightarrow> Inl SyntaxError
           | Some d \<Rightarrow> Inr d))"

record scanner =
  isScanning :: bool
  capturedImage :: "string option"
  scan_error :: "string option"

text \<open>\<^verbatim>\<open>imageDataUrl.split(',')[1]\<close>, on a data URL, which has a comma.\<close>

definition split_comma_1 :: "string \<Rightarrow> string" where
  "split_comma_1 url =
     takeWhile (\<lambda>c. c \<noteq> CHR '','') (drop 1 (dropWhile (\<lambda>c. c \<noteq> CHR '','') url))"

text \<open>
  \<^verbatim>\<open>if (fixedExamName) extracted.examName = fixedExamName\<close>. The module is in strict mode:
  the assignment throws a type error on \<^verbatim>\<open>null\<close> and on a primitive value.
\<close>

definition set_examName :: "string option \<Rightarrow> parsed \<Rightarrow> error + parsed" where
  "set_examName fixedExamName extracted =
     (case fixedExamName of
        None \<Rightarrow> Inr extracted
      | Some n \<Rightarrow>
          if n = [] then Inr extracted
          else (case extracted of
                  Object d \<Rightarrow> Inr (Object (d\<lparr>examName_p := Some n\<rparr>))
                | Null \<Rightarrow> Inl TypeError
                | Primitive \<Rightarrow> Inl TypeError))"

text \<open>
  \<^verbatim>\<open>captureAndScan\<close>, from the capture to the end of the attempt. \<open>refs\<close> says whether
  the video and the canvas are there, \<open>imageDataUrl\<close> is what the canvas returns. The
  component's properties \<^verbatim>\<open>onScanComplete\<close> and \<^verbatim>\<open>fixedExamName\<close> are arguments; the
  callback acts on the state \<open>out\<close> of the component that rendered the scanner. Whatever
  is thrown inside \<^verbatim>\<open>try\<close>, by the extraction or by the assignment, ends in \<^verbatim>\<open>catch\<close>.
\<close>

definition captureAndScan ::
  "(string \<Rightarrow> error + string option) \<Rightarrow> (string \<Rightarrow> parsed option) \<Rightarrow>
   (parsed \<Rightarrow> 'o \<Rightarrow> 'o) \<Rightarrow> string option \<Rightarrow> bool \<Rightarrow> string \<Rightarrow> scanner \<times> 'o \<Rightarrow> scanner \<times> 'o" where
  "captureAndScan generateContent parse onScanComplete' fixedExamName refs imageDataUrl w =
     (if \<not> refs then w
      else
        let sc = (fst w)\<lparr>capturedImage := Some imageDataUrl, isScanning := True\<rparr>;
            failed = (sc\<lparr>scan_error := Some ''AI analysis failed. Please try a clearer photo.'',
                         capturedImage := None, isScanning := False\<rparr>,
                      snd w)
        in case extractStudentDetailsFromImage generateContent parse (split_comma_1 imageDataUrl) of
             Inl err \<Rightarrow> failed
           | Inr extracted \<Rightarrow>
               (case set_examName fixedExamName extracted of
                  Inl err \<Rightarrow> failed
                | Inr x \<Rightarrow> (sc\<lparr>isScanning := False\<rparr>, onScanComplete' x (snd w))))"

text \<open>
  The scanner as \<^verbatim>\<open>AdminDashboard\<close> renders it, inside \<^verbatim>\<open>App\<close>: the fixed exam name is
  the name of the current exam, the callback is the dashboard's.
\<close>

definition AdminDashboard_scan ::
  "(string \<Rightarrow> error + string option) \<Rightarrow> (string \<Rightarrow> parsed option) \<Rightarrow> bool \<Rightarrow> string \<Rightarrow>
   app \<times> dashboard \<times> scanner \<Rightarrow> app \<times> dashboard \<times> scanner" where
  "AdminDashboard_scan generateContent parse refs imageDataUrl w =
     (let a = fst w; d = fst (snd w); sc = snd (snd w);
          r = captureAndScan generateContent parse onScanComplete
                (map_option name_e (currentExam d)) refs imageDataUrl (sc, d)
      in (a, snd r, fst r))"

section \<open>Notions of the specification\<close>

text \<open>The marks object the normalizer works on: the one given, or the all-zero marks.\<close>

definition final_marks :: "partial_student \<Rightarrow> jsobj" where
  "final_marks data = (case marks_p data of Some obj \<Rightarrow> obj | None \<Rightarrow> zero_marks)"

text \<open>
  What a subject counts for in a marks object: nothing when the key is absent, and
  otherwise the number its value converts to, with zero in place of \<open>NaN\<close> (and of a
  value that does not convert at all).
\<close>

definition mark_value :: "engine \<Rightarrow> jsval option \<Rightarrow> jsnum" where
  "mark_value rt v =
     (case v of
        None \<Rightarrow> 0
      | Some w \<Rightarrow> (case Number rt w of Inl e \<Rightarrow> 0 | Inr x \<Rightarrow> or_num x 0))"

text \<open>The sum of the five subject values of a marks object.\<close>

definition subject_sum :: "engine \<Rightarrow> jsobj \<Rightarrow> jsnum" where
  "subject_sum rt m = (\<Sum>k\<leftarrow>subjects. mark_value rt (map_of m k))"

text \<open>Rounding to two decimal places, a half going up.\<close>

definition round_half_up_2dp :: "rat \<Rightarrow> rat" where
  "round_half_up_2dp x = of_int \<lfloor>x * 100 + 1 / 2\<rfloor> / 100"

text \<open>
  A marks object completed as the specification describes: every value replaced by the
  number it counts for, and every subject that is absent added with 0.
\<close>

definition complete_marks :: "engine \<Rightarrow> jsobj \<Rightarrow> jsobj" where
  "complete_marks rt m =
     map (\<lambda>(k, v). (k, JNum (mark_value rt (Some v)))) m @
     map (\<lambda>k. (k, JNum 0)) (filter (\<lambda>k. k \<notin> fst ` set m) subjects)"

text \<open>
  Roll numbers that are the same but for white space around them and the case of their
  letters. The white space characters are the tab, the line feed, the vertical tab, the
  form feed, the carriage return, the space and the no-break space; a string is bare
  when it neither begins nor ends with one. The capital letters are A to Z and those of
  Latin-1, and the small letter of a capital is 32 code units further.
\<close>

definition blank_chars :: "char set" where
  "blank_chars = {CHR 0x09, CHR 0x0A, CHR 0x0B, CHR 0x0C, CHR 0x0D, CHR 0x20, CHR 0xA0}"

definition blank :: "string \<Rightarrow> bool" where
  "blank p = (set p \<subseteq> blank_chars)"

definition bare :: "string \<Rightarrow> bool" where
  "bare x = (x = [] \<or> (hd x \<notin> blank_chars \<and> last x \<notin> blank_chars))"

definition capital :: "char \<Rightarrow> bool" where
  "capital c =
     (let n = of_char c :: nat in (65 \<le> n \<and> n \<le> 90) \<or> (192 \<le> n \<and> n \<le> 222 \<and> n \<noteq> 215))"

definition small_of :: "char \<Rightarrow> char \<Rightarrow> bool" where
  "small_of c d = (capital c \<and> (of_char d :: nat) = of_char c + 32)"

definition same_letter :: "char \<Rightarrow> char \<Rightarrow> bool" where
  "same_letter c d = (c = d \<or> small_of c d \<or> small_of d c)"

definition same_ignoring_case :: "string \<Rightarrow> string \<Rightarrow> bool" where
  "same_ignoring_case x y = list_all2 same_letter x y"

definition same_roll :: "string \<Rightarrow> string \<Rightarrow> bool" where
  "same_roll u v =
     (\<exists>p x q p' y q'.
        u = p @ x @ q \<and> v = p' @ y @ q' \<and> blank p \<and> blank q \<and> blank p' \<and> blank q'
        \<and> bare x \<and> bare y \<and> same_ignoring_case x y)"

section \<open>Inputs of the examples\<close>

text \<open>
  The engine of the examples. The only string among their marks is \<^verbatim>\<open>n/a\<close>, no numeral,
  which reads as \<open>NaN\<close>; an object there is a plain one, which converts to \<open>NaN\<close>.
\<close>

definition reads_NaN :: "string \<Rightarrow> jsnum" where
  "reads_NaN s = NaN"

definition converts_to_NaN :: "nat \<Rightarrow> error + jsnum" where
  "converts_to_NaN r = Inr NaN"

definition example_engine :: engine where
  "example_engine = \<lparr>StringToNumber = reads_NaN, ObjectToNumber = converts_to_NaN\<rparr>"

text \<open>The marks of the specification's example, and an object with no key missing.\<close>

definition sheet_example :: partial_student where
  "sheet_example =
     \<lparr>id_p = None, name_p = None, rollNo_p = None, className_p = None, examName_p = None,
      marks_p = Some [(''math'', JNum (Fin 95)), (''science'', JNum (Fin 92)),
                      (''english'', JNum (Fin 88)), (''history'', JNum (Fin 90)),
                      (''computer'', JNum (Fin 85))]\<rparr>"

definition sheet_all_hundred :: partial_student where
  "sheet_all_hundred =
     \<lparr>id_p = Some ''s-1'', name_p = Some ''Bo'', rollNo_p = Some ''8'', className_p = Some ''X'',
      examName_p = Some ''Finals'',
      marks_p = Some [(''computer'', JNum (Fin 100)), (''history'', JNum (Fin 100)),
                      (''english'', JNum (Fin 100)), (''science'', JNum (Fin 100)),
                      (''math'', JNum (Fin 100))]\<rparr>"

text \<open>
  A marks object with a sixth property, one with three subjects missing and a value
  that is not a number, one with a symbol for a value, and a record with no marks at all.
\<close>

definition sheet_extra_key :: partial_student where
  "sheet_extra_key =
     \<lparr>id_p = None, name_p = Some ''Ann'', rollNo_p = Some ''7'', className_p = Some ''X'',
      examName_p = Some ''Finals'',
      marks_p = Some [(''math'', JNum (Fin 10)), (''science'', JNum (Fin 10)),
                      (''english'', JNum (Fin 10)), (''history'', JNum (Fin 10)),
                      (''computer'', JNum (Fin 10)), (''physics'', JNum (Fin 50))]\<rparr>"

definition sheet_partial_marks :: partial_student where
  "sheet_partial_marks =
     \<lparr>id_p = None, name_p = Some ''Ann'', rollNo_p = Some ''7'', className_p = Some ''X'',
      examName_p = Some ''Finals'',
      marks_p = Some [(''math'', JNum (Fin 95)), (''science'', JStr ''n/a'')]\<rparr>"

definition sheet_symbol_mark :: partial_student where
  "sheet_symbol_mark =
     \<lparr>id_p = None, name_p = Some ''Ann'', rollNo_p = Some ''7'', className_p = Some ''X'',
      examName_p = Some ''Finals'',
      marks_p = Some [(''math'', JNum (Fin 95)), (''science'', JSymbol)]\<rparr>"


definition sheet_no_marks :: partial_student where
  "sheet_no_marks =
     \<lparr>id_p = None, name_p = Some ''Cy'', rollNo_p = None, className_p = None,
      examName_p = None, marks_p = None\<rparr>"

text \<open>A store with two exams and three student records, two of them of one student.\<close>

definition exam_finals :: exam where
  "exam_finals = \<lparr>id_e = ''e-1'', name_e = ''Finals'', createdAt = ''2024-05-01T09:00:00.000Z''\<rparr>"

definition exam_midterm :: exam where
  "exam_midterm = \<lparr>id_e = ''e-2'', name_e = ''Midterm'', createdAt = ''2024-02-01T09:00:00.000Z''\<rparr>"

definition student_ann :: student where
  "student_ann =
     \<lparr>id_s = ''s-1'', name_s = ''Ann'', rollNo = '' 2024-001 '', className = ''X'',
      examName = ''Finals'', marks = zero_marks, total_s = Fin 0, percentage = Fin 0, grade = ''F''\<rparr>"

definition student_bo :: student where
  "student_bo =
     \<lparr>id_s = ''s-2'', name_s = ''Bo'', rollNo = ''2024-002'', className = ''X'',
      examName = ''Midterm'', marks = zero_marks, total_s = Fin 0, percentage = Fin 0, grade = ''F''\<rparr>"

definition app_two_exams :: app where
  "app_two_exams =
     \<lparr>page = ''admin'', isAdmin = True, students = [student_ann, student_bo, student_ann],
      exams = [exam_finals, exam_midterm], selected = None\<rparr>"

text \<open>
  A store whose first student has letters in the roll number, stored with a tab and a
  space in front and a no-break space behind.
\<close>

definition student_cy :: student where
  "student_cy =
     \<lparr>id_s = ''s-3'', name_s = ''Cy'', rollNo = [CHR 0x09, CHR 0x20] @ ''Ab-12X'' @ [CHR 0xA0],
      className = ''X'', examName = ''Finals'', marks = zero_marks, total_s = Fin 0,
      percentage = Fin 0, grade = ''F''\<rparr>"

definition app_letters :: app where
  "app_letters =
     \<lparr>page = ''landing'', isAdmin = False, students = [student_cy, student_bo],
      exams = [exam_finals, exam_midterm], selected = None\<rparr>"

text \<open>
  Stored data: a first run with no students yet, and a student collection cut short.
  The parser here knows the empty array only, which is all the examples need of
  \<^verbatim>\<open>JSON.parse\<close>: it returns the empty array on \<^verbatim>\<open>[]\<close> and throws on \<^verbatim>\<open>[{\<close>.
\<close>

definition parse_only_empty_array :: "string \<Rightarrow> 'a list option" where
  "parse_only_empty_array t = (if t = ''[]'' then Some [] else None)"

definition storage_first_run :: storage where
  "storage_first_run =
     \<lparr>localStorage = [''exam_db'' \<mapsto> ''[]''], sessionStorage = Map.empty\<rparr>"

definition storage_corrupt_students :: storage where
  "storage_corrupt_students =
     \<lparr>localStorage = [''student_db'' \<mapsto> ''[{'', ''exam_db'' \<mapsto> ''[]''],
      sessionStorage = Map.empty\<rparr>"

text \<open>
  The scanner opened inside the folder of an exam, a service that answers with no text,
  one that answers \<^verbatim>\<open>{}\<close>, one that answers \<^verbatim>\<open>null\<close>, and one that rejects the request. The parser knows two texts
  only: \<^verbatim>\<open>JSON.parse('{}')\<close> is an object with no property, \<^verbatim>\<open>JSON.parse('null')\<close> is
  \<^verbatim>\<open>null\<close>.
\<close>

definition parse_examples :: "string \<Rightarrow> parsed option" where
  "parse_examples t =
     (if t = ''{}'' then Some (Object no_fields) else if t = ''null'' then Some Null else None)"

definition respond_without_text :: "string \<Rightarrow> error + string option" where
  "respond_without_text img = Inr None"

definition respond_empty_object :: "string \<Rightarrow> error + string option" where
  "respond_empty_object img = Inr (Some ''{}'')"

definition respond_null :: "string \<Rightarrow> error + string option" where
  "respond_null img = Inr (Some ''null'')"

definition respond_rejected :: "string \<Rightarrow> error + string option" where
  "respond_rejected img = Inl (Thrown ''503'')"

definition dashboard_finals :: dashboard where
  "dashboard_finals =
     \<lparr>currentExam = Some exam_finals, showStudentModal = False, showScanner = True,
      editingId = None, formData = Object sheet_extra_key\<rparr>"

definition scanner_idle :: scanner where
  "scanner_idle = \<lparr>isScanning = False, capturedImage = None, scan_error = None\<rparr>"

section \<open>What the normalizer returns and throws\<close>

lemma process_cases:
  "processStudentData rt uuid data =
     (case foldl (add_mark rt) (Inr 0) (Object_values (final_marks data)) of
        Inl e \<Rightarrow> Inl e
      | Inr t \<Rightarrow>
          Inr \<lparr>id_s = or_str (id_p data) uuid, name_s = or_str (name_p data) [],
               rollNo = or_str (rollNo_p data) [], className = or_str (className_p data) [],
               examName = or_str (examName_p data) ''Standard Exam'', marks = final_marks data,
               total_s = t, percentage = Number_toFixed2 (div_num t 5),
               grade = calculateGrade (Number_toFixed2 (div_num t 5))\<rparr>)"
  by (simp add: processStudentData_def final_marks_def Let_def split: sum.split)

lemma process_fields:
  assumes "processStudentData rt uuid data = Inr s"
  shows "marks s = final_marks data"
    and "foldl (add_mark rt) (Inr 0) (Object_values (final_marks data)) = Inr (total_s s)"
    and "percentage s = Number_toFixed2 (div_num (total_s s) 5)"
    and "grade s = calculateGrade (percentage s)"
  using assms by (auto simp: process_cases split: sum.splits)

lemma process_returns:
  assumes "foldl (add_mark rt) (Inr 0) (Object_values (final_marks data)) = Inr t"
  shows "\<exists>s. processStudentData rt uuid data = Inr s \<and> total_s s = t"
  using assms by (simp add: process_cases)

lemma process_throws:
  "processStudentData rt uuid data = Inl e \<longleftrightarrow>
   foldl (add_mark rt) (Inr 0) (Object_values (final_marks data)) = Inl e"
  by (simp add: process_cases split: sum.splits)

lemma add_mark_thrown: "add_mark rt (Inl e) v = Inl e"
  by (simp add: add_mark_def)

lemma add_mark_throws: "Number rt v = Inl e \<Longrightarrow> add_mark rt (Inr a) v = Inl e"
  by (simp add: add_mark_def)

lemma add_mark_adds: "Number rt v = Inr x \<Longrightarrow> add_mark rt (Inr a) v = Inr (a + or_num x 0)"
  by (simp add: add_mark_def)

lemma reduce_thrown: "foldl (add_mark rt) (Inl e) vs = Inl e"
  by (induction vs) (simp_all add: add_mark_thrown)

lemma reduce_sum:
  assumes "\<And>v. v \<in> set vs \<Longrightarrow> \<exists>x. Number rt v = Inr x"
  shows "foldl (add_mark rt) (Inr a) vs = Inr (a + (\<Sum>v\<leftarrow>vs. mark_value rt (Some v)))"
  using assms
proof (induction vs arbitrary: a)
  case Nil
  show ?case by simp
next
  case (Cons v vs)
  from Cons.prems obtain x where x: "Number rt v = Inr x"
    by auto
  have "foldl (add_mark rt) (Inr (a + or_num x 0)) vs =
        Inr (a + or_num x 0 + (\<Sum>v\<leftarrow>vs. mark_value rt (Some v)))"
    using Cons.prems by (intro Cons.IH) simp
  then show ?case
    by (simp add: add_mark_adds [OF x] x mark_value_def add.assoc)
qed

lemma reduce_throws:
  "foldl (add_mark rt) (Inr a) vs = Inl e \<Longrightarrow> \<exists>v \<in> set vs. Number rt v = Inl e"
proof (induction vs arbitrary: a)
  case Nil
  then show ?case by simp
next
  case (Cons v vs)
  show ?case
  proof (cases "Number rt v")
    case (Inl e')
    with Cons.prems show ?thesis
      by (simp add: add_mark_throws reduce_thrown)
  next
    case (Inr x)
    with Cons.prems have "foldl (add_mark rt) (Inr (a + or_num x 0)) vs = Inl e"
      by (simp add: add_mark_adds)
    then show ?thesis
      using Cons.IH by auto
  qed
qed

lemma reduce_returns_iff:
  "(\<exists>t. foldl (add_mark rt) (Inr a) vs = Inr t) \<longleftrightarrow> (\<forall>v \<in> set vs. \<exists>x. Number rt v = Inr x)"
proof
  assume "\<exists>t. foldl (add_mark rt) (Inr a) vs = Inr t"
  then show "\<forall>v \<in> set vs. \<exists>x. Number rt v = Inr x"
  proof (induction vs arbitrary: a)
    case Nil
    show ?case by simp
  next
    case (Cons v vs)
    show ?case
    proof (cases "Number rt v")
      case (Inl e)
      with Cons.prems show ?thesis
        by (simp add: add_mark_throws reduce_thrown)
    next
      case (Inr x)
      with Cons.prems have "\<exists>t. foldl (add_mark rt) (Inr (a + or_num x 0)) vs = Inr t"
        by (simp add: add_mark_adds)
      then have "\<forall>v \<in> set vs. \<exists>x. Number rt v = Inr x"
        by (rule Cons.IH)
      with Inr show ?thesis
        by simp
    qed
  qed
next
  assume "\<forall>v \<in> set vs. \<exists>x. Number rt v = Inr x"
  then show "\<exists>t. foldl (add_mark rt) (Inr a) vs = Inr t"
    using reduce_sum [of vs rt a] by blast
qed

subsection \<open>Sums over a marks object\<close>

lemma distinct_subjects: "distinct subjects"
  by (simp add: subjects_def)

lemma values_by_key:
  "distinct (map fst m) \<Longrightarrow>
   map (\<lambda>v. mark_value rt (Some v)) (map snd m) = map (\<lambda>k. mark_value rt (map_of m k)) (map fst m)"
  by (induction m) (auto simp: rev_image_eqI)

lemma sum_by_subject:
  assumes d: "distinct (map fst m)" and k: "set (map fst m) \<subseteq> set subjects"
  shows "(\<Sum>v\<leftarrow>Object_values m. mark_value rt (Some v)) = subject_sum rt m"
proof -
  let ?g = "\<lambda>k. mark_value rt (map_of m k)"
  have "(\<Sum>v\<leftarrow>Object_values m. mark_value rt (Some v)) = sum_list (map ?g (map fst m))"
    by (simp add: Object_values_def values_by_key [OF d] del: map_map)
  also have "\<dots> = sum ?g (set (map fst m))"
    using d by (rule sum_list_distinct_conv_sum_set)
  also have "\<dots> = sum ?g (set subjects)"
  proof (rule sum.mono_neutral_left)
    show "\<forall>i\<in>set subjects - set (map fst m). ?g i = 0"
      by (auto simp: mark_value_def map_of_eq_None_iff [THEN iffD2])
  qed (use k in auto)
  also have "\<dots> = sum_list (map ?g subjects)"
    by (rule sum_list_distinct_conv_sum_set [OF distinct_subjects, symmetric])
  finally show ?thesis
    by (simp only: subject_sum_def)
qed



lemma sum_list_bounds:
  fixes f :: "'a \<Rightarrow> int"
  assumes "\<And>k. k \<in> set ks \<Longrightarrow> 0 \<le> f k \<and> f k \<le> 100"
  shows "0 \<le> (\<Sum>k\<leftarrow>ks. f k) \<and> (\<Sum>k\<leftarrow>ks. f k) \<le> 100 * int (length ks)"
  using assms
proof (induction ks)
  case Nil
  show ?case by simp
next
  case (Cons a ks)
  have a: "0 \<le> f a \<and> f a \<le> 100"
    using Cons.prems by simp
  have "0 \<le> (\<Sum>k\<leftarrow>ks. f k) \<and> (\<Sum>k\<leftarrow>ks. f k) \<le> 100 * int (length ks)"
    using Cons.IH Cons.prems by simp
  with a show ?case by simp
qed

subsection \<open>Two decimals\<close>

lemma nearest_hundredth_fifth:
  "nearest_hundredth (of_int n / 5) = of_int n / 5"
proof -
  have "\<lfloor>(of_int n / 5 :: rat) * 100 + 1 / 2\<rfloor> = 20 * n"
    by (rule floor_unique) simp_all
  then show ?thesis
    by (simp add: nearest_hundredth_def)
qed

lemma round_half_up_2dp_fifth:
  "round_half_up_2dp (of_int n / 5) = of_int n / 5"
proof -
  have "\<lfloor>(of_int n / 5 :: rat) * 100 + 1 / 2\<rfloor> = 20 * n"
    by (rule floor_unique) simp_all
  then show ?thesis
    by (simp add: round_half_up_2dp_def)
qed

lemma toFixed2_fifth:
  assumes "\<bar>n\<bar> \<le> 2 ^ 53"
  shows "Number_toFixed2 (div_num (Fin (of_int n)) 5) = Fin (of_int n / 5)"
proof -
  have "\<bar>rat_of_int n\<bar> \<le> 2 ^ 53"
    using assms by (metis of_int_abs of_int_le_iff of_int_numeral of_int_power)
  then have small: "\<not> 10 ^ 21 \<le> \<bar>rat_of_int n / 5\<bar>"
    by simp
  have "- nearest_hundredth (- (rat_of_int n / 5)) = rat_of_int n / 5"
    using nearest_hundredth_fifth [of "- n"] by simp
  then show ?thesis
    using small by (simp add: Number_toFixed2_def div_num_def nearest_hundredth_fifth)
qed

subsection \<open>Whole-number marks, the example and the form\<close>


lemma example_normalized:
  "\<exists>s. processStudentData rt uuid sheet_example = Inr s
       \<and> total_s s = Fin 450 \<and> percentage s = Fin 90 \<and> grade s = ''A+''"
proof -
  have "foldl (add_mark rt) (Inr 0) (Object_values (final_marks sheet_example)) = Inr (Fin 450)"
    by (simp add: final_marks_def sheet_example_def Object_values_def add_mark_def or_num_def
        zero_jsnum_def)
  then obtain s where s: "processStudentData rt uuid sheet_example = Inr s"
    and t: "total_s s = Fin 450"
    using process_returns by blast
  have "\<bar>450 :: int\<bar> \<le> 2 ^ 53"
    by simp
  from toFixed2_fifth [OF this] have p: "percentage s = Fin 90"
    by (simp add: process_fields(3) [OF s] t)
  have "grade s = ''A+''"
    by (simp add: process_fields(4) [OF s] p calculateGrade_def ge_num_def)
  with s t p show ?thesis
    by blast
qed


subsection \<open>Completed marks\<close>

lemma mark_value_not_NaN: "mark_value rt v \<noteq> NaN"
  by (auto simp: mark_value_def or_num_def zero_jsnum_def split: option.splits sum.splits)

lemma mark_value_idem: "mark_value rt (Some (JNum (mark_value rt v))) = mark_value rt v"
  by (auto simp: mark_value_def or_num_def zero_jsnum_def split: option.splits sum.splits)

lemma sum_list_zeros: "(\<Sum>k\<leftarrow>ks. (0 :: jsnum)) = 0"
  by (induction ks) simp_all

lemma complete_marks_converts:
  "v \<in> set (Object_values (complete_marks rt m)) \<Longrightarrow> \<exists>x. Number rt v = Inr x"
  by (auto simp: Object_values_def complete_marks_def)

lemma complete_marks_sum:
  "(\<Sum>v\<leftarrow>Object_values (complete_marks rt m). mark_value rt (Some v)) =
   (\<Sum>v\<leftarrow>Object_values m. mark_value rt (Some v))"
proof -
  have 1: "map (\<lambda>v. mark_value rt (Some v))
             (map snd (map (\<lambda>(k, v). (k, JNum (mark_value rt (Some v)))) m)) =
           map (\<lambda>v. mark_value rt (Some v)) (map snd m)"
    by (induction m) (auto simp: mark_value_idem)
  have 2: "map (\<lambda>v. mark_value rt (Some v)) (map snd (map (\<lambda>k. (k, JNum 0)) ks)) = map (\<lambda>k. 0) ks"
    for ks :: "string list"
    by (induction ks) (simp_all add: mark_value_def or_num_def)
  show ?thesis
    unfolding Object_values_def complete_marks_def map_append sum_list_append 1 2 sum_list_zeros
    by simp
qed

lemma keys_complete_marks: "set subjects \<subseteq> fst ` set (complete_marks rt m)"
proof
  fix k
  assume k: "k \<in> set subjects"
  show "k \<in> fst ` set (complete_marks rt m)"
  proof (cases "k \<in> fst ` set m")
    case True
    then obtain v where "(k, v) \<in> set m" by auto
    then have "(k, JNum (mark_value rt (Some v))) \<in> set (complete_marks rt m)"
      by (force simp: complete_marks_def)
    then show ?thesis by force
  next
    case False
    with k have "(k, JNum 0) \<in> set (complete_marks rt m)"
      by (simp add: complete_marks_def)
    then show ?thesis by force
  qed
qed

lemma values_complete_marks:
  "(k, v) \<in> set (complete_marks rt m) \<Longrightarrow> \<exists>n. v = JNum n \<and> n \<noteq> NaN"
  by (auto simp: complete_marks_def mark_value_not_NaN zero_jsnum_def)

lemma completed_same_fields:
  assumes m: "marks_p data = Some m" and s: "processStudentData rt uuid data = Inr s"
  shows "\<exists>c. processStudentData rt uuid (data\<lparr>marks_p := Some (complete_marks rt m)\<rparr>) = Inr c
           \<and> total_s c = total_s s \<and> percentage c = percentage s \<and> grade c = grade s"
proof -
  let ?c = "data\<lparr>marks_p := Some (complete_marks rt m)\<rparr>"
  have fm: "final_marks data = m" "final_marks ?c = complete_marks rt m"
    using m by (simp_all add: final_marks_def)
  have "\<exists>t. foldl (add_mark rt) (Inr 0) (Object_values m) = Inr t"
    using process_fields(2) [OF s] by (auto simp: fm)
  then have conv: "\<forall>v \<in> set (Object_values m). \<exists>x. Number rt v = Inr x"
    by (simp only: reduce_returns_iff)
  then have "foldl (add_mark rt) (Inr 0) (Object_values m) =
      Inr (0 + (\<Sum>v\<leftarrow>Object_values m. mark_value rt (Some v)))"
    by (intro reduce_sum) blast
  then have t: "total_s s = (\<Sum>v\<leftarrow>Object_values m. mark_value rt (Some v))"
    using process_fields(2) [OF s] by (simp add: fm)
  have "foldl (add_mark rt) (Inr 0) (Object_values (complete_marks rt m)) =
      Inr (0 + (\<Sum>v\<leftarrow>Object_values (complete_marks rt m). mark_value rt (Some v)))"
    by (intro reduce_sum complete_marks_converts)
  then have "foldl (add_mark rt) (Inr 0) (Object_values (final_marks ?c)) = Inr (total_s s)"
    by (simp add: fm complete_marks_sum t)
  then obtain c where c: "processStudentData rt uuid ?c = Inr c" and tc: "total_s c = total_s s"
    using process_returns by blast
  then have "percentage c = percentage s"
    by (simp add: process_fields(3) [OF c] process_fields(3) [OF s])
  then have "grade c = grade s"
    by (simp add: process_fields(4) [OF c] process_fields(4) [OF s])
  with c tc \<open>percentage c = percentage s\<close> show ?thesis
    by blast
qed

section \<open>Derived fields\<close>




section \<open>Defaults of the marks\<close>

text \<open>
  C3, as the code has it. A record with no marks object gets the all-zero marks, and
  the normalizer returns on it. A marks object that is there is kept as it is in the
  record returned: no key is added and no value is replaced. The total, percentage and
  grade of that record are nevertheless those of the completed object, which has all
  five subjects and only numbers, none of them \<open>NaN\<close>. The normalizer returns a record
  exactly when no value of the final marks object is a symbol or an object whose
  conversion to a number throws; when it throws, it throws what \<^verbatim>\<open>Number\<close> throws on one
  of the values.
\<close>

theorem processStudentData_marks_kept:
  "(marks_p data = None \<longrightarrow> (\<exists>s. processStudentData rt uuid data = Inr s \<and> marks s = zero_marks))
   \<and> (\<forall>s. marks_p data = Some m \<and> processStudentData rt uuid data = Inr s \<longrightarrow>
          marks s = m
        \<and> (\<exists>c. processStudentData rt uuid (data\<lparr>marks_p := Some (complete_marks rt m)\<rparr>) = Inr c
               \<and> total_s c = total_s s \<and> percentage c = percentage s \<and> grade c = grade s))
   \<and> set subjects \<subseteq> fst ` set (complete_marks rt m)
   \<and> (\<forall>kv \<in> set (complete_marks rt m). \<exists>n. snd kv = JNum n \<and> n \<noteq> NaN)
   \<and> ((\<exists>s. processStudentData rt uuid data = Inr s) \<longleftrightarrow>
        (\<forall>v \<in> set (Object_values (final_marks data)).
           v \<noteq> JSymbol \<and> (\<forall>r. v = JObject r \<longrightarrow> (\<exists>x. ObjectToNumber rt r = Inr x))))
   \<and> (\<forall>e. processStudentData rt uuid data = Inl e \<longrightarrow>
          (\<exists>v \<in> set (Object_values (final_marks data)). Number rt v = Inl e))"
proof -
  have none: "\<exists>s. processStudentData rt uuid data = Inr s \<and> marks s = zero_marks"
    if "marks_p data = None"
  proof -
    have fm: "final_marks data = zero_marks"
      using that by (simp add: final_marks_def)
    have "\<exists>x. Number rt v = Inr x" if "v \<in> set (Object_values zero_marks)" for v
      using that by (auto simp: Object_values_def zero_marks_def)
    then have "\<exists>t. foldl (add_mark rt) (Inr 0) (Object_values (final_marks data)) = Inr t"
      by (simp only: fm reduce_returns_iff) blast
    then obtain s where s: "processStudentData rt uuid data = Inr s"
      using process_returns by blast
    with process_fields(1) [OF s] fm show ?thesis
      by auto
  qed
  have some: "marks s = m
        \<and> (\<exists>c. processStudentData rt uuid (data\<lparr>marks_p := Some (complete_marks rt m)\<rparr>) = Inr c
               \<and> total_s c = total_s s \<and> percentage c = percentage s \<and> grade c = grade s)"
    if "marks_p data = Some m" "processStudentData rt uuid data = Inr s" for s
    using that completed_same_fields [OF that] process_fields(1) [OF that(2)]
    by (simp add: final_marks_def)
  have v: "\<forall>kv \<in> set (complete_marks rt m). \<exists>n. snd kv = JNum n \<and> n \<noteq> NaN"
    using values_complete_marks [of _ _ rt m] by auto
  have conv: "(\<exists>x. Number rt v = Inr x) \<longleftrightarrow>
      v \<noteq> JSymbol \<and> (\<forall>r. v = JObject r \<longrightarrow> (\<exists>x. ObjectToNumber rt r = Inr x))" for v
    by (cases v) auto
  have "(\<exists>s. processStudentData rt uuid data = Inr s) \<longleftrightarrow>
        (\<exists>t. foldl (add_mark rt) (Inr 0) (Object_values (final_marks data)) = Inr t)"
    using process_returns [of rt data _ uuid] process_fields(2) [of rt uuid data] by blast
  then have returns: "(\<exists>s. processStudentData rt uuid data = Inr s) \<longleftrightarrow>
        (\<forall>v \<in> set (Object_values (final_marks data)).
           v \<noteq> JSymbol \<and> (\<forall>r. v = JObject r \<longrightarrow> (\<exists>x. ObjectToNumber rt r = Inr x)))"
    by (simp only: reduce_returns_iff conv)
  have throws: "\<forall>e. processStudentData rt uuid data = Inl e \<longrightarrow>
          (\<exists>v \<in> set (Object_values (final_marks data)). Number rt v = Inl e)"
    using reduce_throws [of rt 0 "Object_values (final_marks data)"] by (simp add: process_throws)
  from none some v keys_complete_marks [of rt m] returns throws show ?thesis
    by blast
qed

theorem processStudentData_marks_kept_witness:
  "(\<exists>s. processStudentData example_engine ''u'' sheet_no_marks = Inr s \<and> marks s = zero_marks)
   \<and> (\<exists>c. processStudentData example_engine ''u''
           (sheet_partial_marks\<lparr>marks_p := Some (complete_marks example_engine
              [(''math'', JNum (Fin 95)), (''science'', JStr ''n/a'')])\<rparr>) = Inr c
          \<and> total_s c = Fin 95 \<and> percentage c = Fin 19 \<and> grade c = ''F'')
   \<and> complete_marks example_engine [(''math'', JNum (Fin 95)), (''science'', JStr ''n/a'')] =
       [(''math'', JNum (Fin 95)), (''science'', JNum (Fin 0)), (''english'', JNum (Fin 0)),
        (''history'', JNum (Fin 0)), (''computer'', JNum (Fin 0))]
   \<and> (\<exists>s. processStudentData example_engine ''u'' sheet_partial_marks = Inr s)"
proof -
  let ?m = "[(''math'', JNum (Fin 95)), (''science'', JStr ''n/a'')]"
  let ?s = "\<lparr>id_s = ''u'', name_s = ''Ann'', rollNo = ''7'', className = ''X'',
             examName = ''Finals'', marks = ?m, total_s = Fin 95, percentage = Fin 19,
             grade = ''F''\<rparr>"
  have 1: "marks_p sheet_no_marks = None"
    by (simp add: sheet_no_marks_def)
  have 2: "marks_p sheet_partial_marks = Some ?m"
    by (simp add: sheet_partial_marks_def)
  have 3: "processStudentData example_engine ''u'' sheet_partial_marks = Inr ?s"
    by code_simp
  note a = processStudentData_marks_kept
    [where data = sheet_no_marks and rt = example_engine and uuid = "''u''", THEN conjunct1]
  note b = processStudentData_marks_kept
    [where data = sheet_partial_marks and rt = example_engine and uuid = "''u''" and m = ?m,
     THEN conjunct2, THEN conjunct1]
  from b 2 3 obtain c where "processStudentData example_engine ''u''
           (sheet_partial_marks\<lparr>marks_p := Some (complete_marks example_engine ?m)\<rparr>) = Inr c"
    and "total_s c = total_s ?s" "percentage c = percentage ?s" "grade c = grade ?s"
    by blast
  then have "\<exists>c. processStudentData example_engine ''u''
           (sheet_partial_marks\<lparr>marks_p := Some (complete_marks example_engine ?m)\<rparr>) = Inr c
          \<and> total_s c = Fin 95 \<and> percentage c = Fin 19 \<and> grade c = ''F''"
    by (intro exI [of _ c]) simp
  moreover have "complete_marks example_engine ?m =
       [(''math'', JNum (Fin 95)), (''science'', JNum (Fin 0)), (''english'', JNum (Fin 0)),
        (''history'', JNum (Fin 0)), (''computer'', JNum (Fin 0))]"
    by code_simp
  moreover have "\<exists>s. processStudentData example_engine ''u'' sheet_partial_marks = Inr s"
    using 3 by blast
  ultimately show ?thesis
    using a 1 by blast
qed

text \<open>
  C3 as stated fails, on both counts. From marks with only \<^verbatim>\<open>math\<close> and a \<^verbatim>\<open>science\<close> that
  is not a number, the record returned has exactly those marks; \<^verbatim>\<open>english\<close> is not among
  its keys. And on marks with a symbol for a value the normalizer throws a type error.
\<close>

theorem partial_marks_not_completed:
  "processStudentData example_engine ''u'' sheet_partial_marks =
     Inr \<lparr>id_s = ''u'', name_s = ''Ann'', rollNo = ''7'', className = ''X'', examName = ''Finals'',
          marks = [(''math'', JNum (Fin 95)), (''science'', JStr ''n/a'')],
          total_s = Fin 95, percentage = Fin 19, grade = ''F''\<rparr>
   \<and> ''english'' \<notin> fst ` set [(''math'', JNum (Fin 95)), (''science'', JStr ''n/a'')]
   \<and> processStudentData example_engine ''u'' sheet_symbol_mark = Inl TypeError"
  by code_simp

section \<open>The grade\<close>

text \<open>
  C5. The grade of a finite percentage is decided top-down on inclusive thresholds: at
  least 90 is A+, otherwise at least 80 is A, at least 70 is B, at least 55 is C, at least
  35 is D, and anything lower is F. So 90.00 is A+, 89.99 is A, 35.00 is D and 34.99 is
  F, and every finite percentage has one of the six grades.
\<close>

theorem calculateGrade_thresholds:
  "calculateGrade (Fin p) =
     (if 90 \<le> p then ''A+'' else if 80 \<le> p then ''A'' else if 70 \<le> p then ''B''
      else if 55 \<le> p then ''C'' else if 35 \<le> p then ''D'' else ''F'')
   \<and> calculateGrade (Fin p) \<in> {''A+'', ''A'', ''B'', ''C'', ''D'', ''F''}
   \<and> calculateGrade (Fin 90) = ''A+''
   \<and> calculateGrade (Fin (8999 / 100)) = ''A''
   \<and> calculateGrade (Fin 35) = ''D''
   \<and> calculateGrade (Fin (3499 / 100)) = ''F''"
  by (simp add: calculateGrade_def ge_num_def)

theorem calculateGrade_thresholds_witness:
  "calculateGrade (Fin (145 / 2)) = ''B''"
  using calculateGrade_thresholds [of "145 / 2"] by simp

section \<open>Integer marks\<close>

text \<open>
  C6. For marks with the five subjects, each an integer from 0 to 100, the normalizer
  returns a record, the total is the sum of the five scores and at most 500, and the
  percentage is the total divided by 5, rounded to two decimals with a half going up
  (which is the quotient itself). On the example marks 95, 92, 88, 90, 85 the total is
  450, the percentage 90 and the grade A+.
\<close>

theorem processStudentData_integer_marks:
  assumes "marks_p data = Some m"
    and "distinct (map fst m)"
    and "set (map fst m) = set subjects"
    and "\<And>k. k \<in> set subjects \<Longrightarrow>
           map_of m k = Some (JNum (Fin (of_int (score k)))) \<and> 0 \<le> score k \<and> score k \<le> 100"
  shows "(\<exists>s. processStudentData rt uuid data = Inr s
            \<and> total_s s = Fin (of_int (\<Sum>k\<leftarrow>subjects. score k))
            \<and> (\<Sum>k\<leftarrow>subjects. score k) \<le> 500
            \<and> percentage s = Fin (round_half_up_2dp (of_int (\<Sum>k\<leftarrow>subjects. score k) / 5))
            \<and> percentage s = Fin (of_int (\<Sum>k\<leftarrow>subjects. score k) / 5))
       \<and> (\<exists>s. processStudentData rt uuid sheet_example = Inr s
            \<and> total_s s = Fin 450 \<and> percentage s = Fin 90 \<and> grade s = ''A+'')"
proof -
  let ?n = "\<Sum>k\<leftarrow>subjects. score k"
  have fm: "final_marks data = m"
    using assms(1) by (simp add: final_marks_def)
  have num: "\<exists>k \<in> set subjects. v = JNum (Fin (of_int (score k)))"
    if "v \<in> set (Object_values m)" for v
  proof -
    from that obtain k where kv: "(k, v) \<in> set m"
      by (auto simp: Object_values_def)
    then have "k \<in> set subjects"
      using assms(3) by force
    moreover from kv have "map_of m k = Some v"
      using assms(2) by simp
    ultimately show ?thesis
      using assms(4) by force
  qed
  have conv: "\<exists>x. Number rt v = Inr x" if "v \<in> set (Object_values m)" for v
    using num [OF that] by auto
  have v: "mark_value rt (map_of m k) = Fin (of_int (score k))" if "k \<in> set subjects" for k
    using assms(4) [OF that] by (simp add: mark_value_def or_num_def zero_jsnum_def)
  have "foldl (add_mark rt) (Inr 0) (Object_values m) =
        Inr (0 + (\<Sum>v\<leftarrow>Object_values m. mark_value rt (Some v)))"
    using conv by (rule reduce_sum)
  also have "(\<Sum>v\<leftarrow>Object_values m. mark_value rt (Some v)) = subject_sum rt m"
    using assms(2,3) by (intro sum_by_subject) simp_all
  also have "subject_sum rt m = (\<Sum>k\<leftarrow>subjects. Fin (of_int (score k)))"
    unfolding subject_sum_def using v by (simp cong: map_cong)
  also have "\<dots> = Fin (of_int ?n)"
    by (simp add: subjects_def zero_jsnum_def)
  finally have "foldl (add_mark rt) (Inr 0) (Object_values (final_marks data)) = Inr (Fin (of_int ?n))"
    by (simp add: fm)
  then obtain s where s: "processStudentData rt uuid data = Inr s" and t: "total_s s = Fin (of_int ?n)"
    using process_returns by blast
  have b: "0 \<le> ?n \<and> ?n \<le> 500"
    using sum_list_bounds [of subjects score] assms(4) by (simp add: subjects_def)
  then have "\<bar>?n\<bar> \<le> 2 ^ 53"
    by simp
  then have p: "percentage s = Fin (of_int ?n / 5)"
    by (simp add: process_fields(3) [OF s] t toFixed2_fifth)
  have "\<exists>s. processStudentData rt uuid data = Inr s
            \<and> total_s s = Fin (of_int ?n) \<and> ?n \<le> 500
            \<and> percentage s = Fin (round_half_up_2dp (of_int ?n / 5))
            \<and> percentage s = Fin (of_int ?n / 5)"
    using s t b p by (simp only: round_half_up_2dp_fifth) blast
  with example_normalized [of rt uuid] show ?thesis
    by (rule conjI [rotated])
qed

theorem processStudentData_integer_marks_witness:
  "\<exists>s. processStudentData example_engine ''u'' sheet_all_hundred = Inr s
       \<and> total_s s = Fin 500 \<and> percentage s = Fin 100"
proof -
  let ?m = "[(''computer'', JNum (Fin 100)), (''history'', JNum (Fin 100)),
             (''english'', JNum (Fin 100)), (''science'', JNum (Fin 100)),
             (''math'', JNum (Fin 100))]"
  have 1: "marks_p sheet_all_hundred = Some ?m"
    by (simp add: sheet_all_hundred_def)
  have 2: "distinct (map fst ?m)"
    by simp
  have 3: "set (map fst ?m) = set subjects"
    by (auto simp: subjects_def)
  have 4: "map_of ?m k = Some (JNum (Fin (of_int ((\<lambda>_. 100) k)))) \<and>
           0 \<le> (\<lambda>_. 100 :: int) k \<and> (\<lambda>_. 100 :: int) k \<le> 100"
    if "k \<in> set subjects" for k
    using that by (auto simp: subjects_def)
  note r = processStudentData_integer_marks
    [where data = sheet_all_hundred and m = ?m and score = "\<lambda>_. 100" and rt = example_engine
       and uuid = "''u''", OF 1 2 3 4, THEN conjunct1]
  then obtain s where "processStudentData example_engine ''u'' sheet_all_hundred = Inr s"
    and "total_s s = Fin (of_int (\<Sum>k\<leftarrow>subjects. 100))"
    and "percentage s = Fin (of_int (\<Sum>k\<leftarrow>subjects. 100) / 5)"
    by blast
  then show ?thesis
    by (intro exI [of _ s]) (simp add: subjects_def)
qed

section \<open>Idempotence\<close>

text \<open>
  C9. Normalizing a normalized record returns it unchanged, identifier, marks, total,
  percentage and grade included: when the same fresh identifier is at hand both times,
  and with any other one when the first is not empty. Where the normalizer throws there
  is no record to normalize again, and the exception is the outcome on both sides.
\<close>

theorem processStudentData_idempotent:
  "(case processStudentData rt uuid x of
      Inl e \<Rightarrow> Inl e
    | Inr s \<Rightarrow> processStudentData rt uuid (as_partial s)) = processStudentData rt uuid x
   \<and> (uuid \<noteq> [] \<longrightarrow>
        (case processStudentData rt uuid x of
           Inl e \<Rightarrow> Inl e
         | Inr s \<Rightarrow> processStudentData rt uuid' (as_partial s)) = processStudentData rt uuid x)"
  by (simp add: process_cases final_marks_def as_partial_def or_str_def
      split: option.split sum.split)

theorem processStudentData_idempotent_witness:
  "processStudentData example_engine ''v''
     (as_partial
        \<lparr>id_s = ''u'', name_s = ''Cy'', rollNo = [], className = [], examName = ''Standard Exam'',
         marks = zero_marks, total_s = Fin 0, percentage = Fin 0, grade = ''F''\<rparr>) =
   Inr \<lparr>id_s = ''u'', name_s = ''Cy'', rollNo = [], className = [], examName = ''Standard Exam'',
        marks = zero_marks, total_s = Fin 0, percentage = Fin 0, grade = ''F''\<rparr>"
proof -
  have "processStudentData example_engine ''u'' sheet_no_marks =
      Inr \<lparr>id_s = ''u'', name_s = ''Cy'', rollNo = [], className = [], examName = ''Standard Exam'',
           marks = zero_marks, total_s = Fin 0, percentage = Fin 0, grade = ''F''\<rparr>"
    by code_simp
  with processStudentData_idempotent
    [where rt = example_engine and uuid = "''u''" and x = sheet_no_marks and uuid' = "''v''"]
  show ?thesis
    by simp
qed

section \<open>Deleting an exam\<close>

text \<open>
  C2. Deleting an exam by an identifier that is in the exam collection removes the exam
  (the collection keeps the exams of every other identifier) and, in the same step,
  exactly the students whose exam name is the name of that exam: the students left are
  the others, in their order, and the size of the student collection goes down by the
  number of students removed. The exam is the one \<^verbatim>\<open>find\<close> returns for the identifier.
  The rest of the state is as it was.
\<close>

theorem onDeleteExam_cascade:
  assumes "i \<in> id_e ` set (exams a)"
  shows "\<exists>ex \<in> set (exams a).
           id_e ex = i
         \<and> find (\<lambda>e. id_e e = i) (exams a) = Some ex
         \<and> ex \<notin> set (exams (onDeleteExam i a))
         \<and> exams (onDeleteExam i a) = filter (\<lambda>e. id_e e \<noteq> i) (exams a)
         \<and> students (onDeleteExam i a) = filter (\<lambda>s. examName s \<noteq> name_e ex) (students a)
         \<and> length (students (onDeleteExam i a)) +
             length (filter (\<lambda>s. examName s = name_e ex) (students a)) = length (students a)
         \<and> page (onDeleteExam i a) = page a \<and> isAdmin (onDeleteExam i a) = isAdmin a
         \<and> selected (onDeleteExam i a) = selected a"
proof -
  from assms obtain ex where f: "find (\<lambda>e. id_e e = i) (exams a) = Some ex"
    by (cases "find (\<lambda>e. id_e e = i) (exams a)") (auto simp: find_None_iff)
  then have ex: "ex \<in> set (exams a)" "id_e ex = i"
    by (auto simp: find_Some_iff)
  have s: "students (onDeleteExam i a) = filter (\<lambda>s. examName s \<noteq> name_e ex) (students a)"
    by (simp add: onDeleteExam_def f)
  have "length (filter (\<lambda>s. examName s \<noteq> name_e ex) (students a)) +
        length (filter (\<lambda>s. examName s = name_e ex) (students a)) = length (students a)"
    using sum_length_filter_compl [of "\<lambda>s. examName s \<noteq> name_e ex" "students a"] by simp
  with s ex f show ?thesis
    by (intro bexI [of _ ex]) (simp_all add: onDeleteExam_def)
qed

theorem onDeleteExam_cascade_witness:
  "students (onDeleteExam ''e-1'' app_two_exams) = [student_bo]
   \<and> exams (onDeleteExam ''e-1'' app_two_exams) = [exam_midterm]
   \<and> length (students app_two_exams) = 3"
proof -
  have 1: "''e-1'' \<in> id_e ` set (exams app_two_exams)"
    by (simp add: app_two_exams_def exam_finals_def)
  from onDeleteExam_cascade [OF 1]
  obtain ex where "ex \<in> set (exams app_two_exams)" and "id_e ex = ''e-1''"
    and e: "exams (onDeleteExam ''e-1'' app_two_exams) = filter (\<lambda>e. id_e e \<noteq> ''e-1'') (exams app_two_exams)"
    and s: "students (onDeleteExam ''e-1'' app_two_exams) =
         filter (\<lambda>s. examName s \<noteq> name_e ex) (students app_two_exams)"
    by blast
  then have "ex = exam_finals"
    by (auto simp: app_two_exams_def exam_finals_def exam_midterm_def)
  with e s show ?thesis
    by (simp add: app_two_exams_def exam_finals_def exam_midterm_def student_ann_def student_bo_def)
qed

text \<open>
  C10. Deleting an exam by an identifier that no exam has changes nothing: no exam and
  no student is removed.
\<close>

theorem onDeleteExam_unknown_id:
  assumes "i \<notin> id_e ` set (exams a)"
  shows "onDeleteExam i a = a"
proof -
  have "find (\<lambda>e. id_e e = i) (exams a) = None"
    using assms by (auto simp: find_None_iff)
  moreover have "filter (\<lambda>e. id_e e \<noteq> i) (exams a) = exams a"
    using assms by (auto simp: filter_id_conv)
  ultimately show ?thesis
    by (simp add: onDeleteExam_def)
qed

theorem onDeleteExam_unknown_id_witness:
  "onDeleteExam ''e-9'' app_two_exams = app_two_exams"
proof -
  have "''e-9'' \<notin> id_e ` set (exams app_two_exams)"
    by (simp add: app_two_exams_def exam_finals_def exam_midterm_def)
  then show ?thesis
    by (rule onDeleteExam_unknown_id)
qed

section \<open>Looking a result up\<close>

lemma char_of_codes:
  "char_of (9 :: nat) = CHR 0x09" "char_of (10 :: nat) = CHR 0x0A" "char_of (11 :: nat) = CHR 0x0B"
  "char_of (12 :: nat) = CHR 0x0C" "char_of (13 :: nat) = CHR 0x0D" "char_of (32 :: nat) = CHR 0x20"
  "char_of (160 :: nat) = CHR 0xA0"
  by code_simp+

lemma isWhiteSpace_blank: "isWhiteSpace c \<longleftrightarrow> c \<in> blank_chars"
proof
  assume "isWhiteSpace c"
  then have "(of_char c :: nat) \<in> {9, 10, 11, 12, 13, 32, 160}"
    by (simp add: isWhiteSpace_def)
  then have "char_of (of_char c :: nat) \<in> char_of ` {9, 10, 11, 12, 13, 32, 160 :: nat}"
    by (rule imageI)
  then show "c \<in> blank_chars"
    by (simp add: blank_chars_def char_of_codes)
next
  assume "c \<in> blank_chars"
  then show "isWhiteSpace c"
    by (auto simp: blank_chars_def isWhiteSpace_def)
qed

lemma blank_iff: "blank p \<longleftrightarrow> (\<forall>c \<in> set p. isWhiteSpace c)"
  by (auto simp: blank_def isWhiteSpace_blank)

lemma trim_pad_left:
  assumes "blank p"
  shows "trim (p @ s) = trim s"
  using assms by (simp add: trim_def blank_iff dropWhile_append2)

lemma trim_pad_right:
  assumes q: "blank q"
  shows "trim (s @ q) = trim s"
proof (cases "\<forall>c \<in> set s. isWhiteSpace c")
  case True
  with q have "dropWhile isWhiteSpace (s @ q) = []" and "dropWhile isWhiteSpace s = []"
    by (auto simp: blank_iff)
  then show ?thesis
    unfolding trim_def by (simp only:)
next
  case False
  then obtain c where "c \<in> set s" and "\<not> isWhiteSpace c"
    by auto
  then have "dropWhile isWhiteSpace (s @ q) = dropWhile isWhiteSpace s @ q"
    by (rule dropWhile_append1)
  moreover have "dropWhile isWhiteSpace (rev q @ t) = dropWhile isWhiteSpace t" for t
    using q by (intro dropWhile_append2) (simp add: blank_iff)
  ultimately show ?thesis
    by (simp add: trim_def)
qed

lemma trim_bare:
  assumes "bare x"
  shows "trim x = x"
proof (cases "x = []")
  case True
  then show ?thesis by (simp add: trim_def)
next
  case False
  with assms have h: "\<not> isWhiteSpace (hd x)" and l: "\<not> isWhiteSpace (last x)"
    by (simp_all add: bare_def isWhiteSpace_blank)
  from h False have "dropWhile isWhiteSpace x = x"
    by (cases x) simp_all
  moreover from l False have "dropWhile isWhiteSpace (rev x) = rev x"
    by (cases "rev x") (simp_all add: last_rev [symmetric] hd_rev)
  ultimately show ?thesis
    by (simp add: trim_def)
qed

lemma trim_decompose:
  "\<exists>p q. u = p @ trim u @ q \<and> blank p \<and> blank q \<and> bare (trim u)"
proof -
  define d where "d = dropWhile isWhiteSpace u"
  define e where "e = dropWhile isWhiteSpace (rev d)"
  define p where "p = takeWhile isWhiteSpace u"
  define q where "q = rev (takeWhile isWhiteSpace (rev d))"
  have t: "trim u = rev e"
    by (simp add: trim_def d_def e_def)
  have u: "u = p @ d"
    by (simp add: p_def d_def)
  have "rev d = takeWhile isWhiteSpace (rev d) @ e"
    by (simp add: e_def)
  then have "rev (rev d) = rev (takeWhile isWhiteSpace (rev d) @ e)"
    by (rule arg_cong)
  then have d: "d = rev e @ q"
    by (simp add: q_def)
  have bp: "blank p"
    by (auto simp: blank_iff p_def dest: set_takeWhileD)
  have bq: "blank q"
    by (auto simp: blank_iff q_def dest: set_takeWhileD)
  have "bare (rev e)"
  proof (cases "e = []")
    case True
    then show ?thesis by (simp add: bare_def)
  next
    case False
    then have 1: "\<not> isWhiteSpace (hd e)"
      unfolding e_def by (rule hd_dropWhile)
    from False d have dn: "d \<noteq> []" and "hd d = hd (rev e)"
      by auto
    with False have "hd d = last e"
      by (simp add: hd_rev)
    moreover have "\<not> isWhiteSpace (hd d)"
      using dn unfolding d_def by (rule hd_dropWhile)
    ultimately have 2: "\<not> isWhiteSpace (last e)"
      by simp
    from False 1 2 show ?thesis
      by (simp add: bare_def isWhiteSpace_blank hd_rev last_rev)
  qed
  with u d t bp bq show ?thesis
    by (intro exI [of _ p] exI [of _ q]) simp
qed

lemma lower_char_eq_iff: "lower_char c = lower_char d \<longleftrightarrow> same_letter c d"
proof -
  have up: "of_char (char_of (of_char a + 32 :: nat)) = (of_char a + 32 :: nat)"
    if "of_char a \<le> (222 :: nat)" for a :: char
    using that by simp
  have inj: "a = b" if "(of_char a :: nat) = of_char b" for a b :: char
    using that by simp
  show ?thesis
  proof (cases "capital c")
    case c: True
    show ?thesis
    proof (cases "capital d")
      case True
      have "lower_char c = lower_char d \<longleftrightarrow> (of_char c :: nat) + 32 = of_char d + 32"
        using c True up [of c] up [of d]
        by (auto simp: lower_char_def capital_def Let_def dest: arg_cong [where f = "of_char :: char \<Rightarrow> nat"])
      then show ?thesis
        using c True by (auto simp: same_letter_def small_of_def capital_def Let_def)
    next
      case False
      have "lower_char c = lower_char d \<longleftrightarrow> (of_char d :: nat) = of_char c + 32"
        using c False up [of c]
        by (auto simp: lower_char_def capital_def Let_def dest: arg_cong [where f = "of_char :: char \<Rightarrow> nat"]
            intro!: inj)
      then show ?thesis
        using c False by (auto simp: same_letter_def small_of_def capital_def Let_def)
    qed
  next
    case c: False
    show ?thesis
    proof (cases "capital d")
      case True
      have "lower_char c = lower_char d \<longleftrightarrow> (of_char c :: nat) = of_char d + 32"
        using c True up [of d]
        by (auto simp: lower_char_def capital_def Let_def dest: arg_cong [where f = "of_char :: char \<Rightarrow> nat"]
            intro!: inj)
      then show ?thesis
        using c True by (auto simp: same_letter_def small_of_def capital_def Let_def)
    next
      case False
      with c show ?thesis
        by (auto simp: lower_char_def same_letter_def small_of_def capital_def Let_def)
    qed
  qed
qed

lemma toLowerCase_eq_iff: "toLowerCase x = toLowerCase y \<longleftrightarrow> same_ignoring_case x y"
proof -
  have "map lower_char x = map lower_char y \<longleftrightarrow> list_all2 (\<lambda>c d. lower_char c = lower_char d) x y"
    by (auto simp: list_all2_conv_all_nth list_eq_iff_nth_eq)
  then show ?thesis
    by (simp add: toLowerCase_def same_ignoring_case_def lower_char_eq_iff)
qed

lemma isWhiteSpace_lower_char: "isWhiteSpace (lower_char c) = isWhiteSpace c"
proof -
  have "of_char (char_of (of_char c + 32 :: nat)) = (of_char c + 32 :: nat)"
    if "of_char c \<le> (222 :: nat)"
    using that by simp
  then show ?thesis
    by (auto simp: isWhiteSpace_def lower_char_def Let_def)
qed

lemma trim_toLowerCase: "trim (toLowerCase s) = toLowerCase (trim s)"
proof -
  have "isWhiteSpace \<circ> lower_char = isWhiteSpace"
    by (rule ext) (simp add: isWhiteSpace_lower_char)
  then show ?thesis
    by (simp add: trim_def toLowerCase_def dropWhile_map rev_map)
qed

lemma roll_key_eq_iff: "toLowerCase (trim u) = toLowerCase (trim v) \<longleftrightarrow> same_roll u v"
proof
  assume k: "toLowerCase (trim u) = toLowerCase (trim v)"
  obtain p q where u: "u = p @ trim u @ q" "blank p" "blank q" "bare (trim u)"
    using trim_decompose [of u] by blast
  obtain p' q' where v: "v = p' @ trim v @ q'" "blank p'" "blank q'" "bare (trim v)"
    using trim_decompose [of v] by blast
  from k have "same_ignoring_case (trim u) (trim v)"
    by (simp only: toLowerCase_eq_iff)
  with u v show "same_roll u v"
    unfolding same_roll_def by blast
next
  assume "same_roll u v"
  then obtain p x q p' y q' where u: "u = p @ x @ q" and v: "v = p' @ y @ q'"
    and b: "blank p" "blank q" "blank p'" "blank q'" and bare: "bare x" "bare y"
    and s: "same_ignoring_case x y"
    unfolding same_roll_def by blast
  have "trim u = x"
    unfolding u using b(1,2) bare(1)
    by (simp add: trim_pad_left trim_pad_right [of q "x", simplified] trim_bare)
  moreover have "trim v = y"
    unfolding v using b(3,4) bare(2)
    by (simp add: trim_pad_left trim_pad_right [of q' "y", simplified] trim_bare)
  ultimately show "toLowerCase (trim u) = toLowerCase (trim v)"
    using s by (simp only: toLowerCase_eq_iff)
qed

lemma roll_key_padded:
  assumes "blank p" "blank q" "same_ignoring_case x y"
  shows "toLowerCase (trim (p @ x @ q)) = toLowerCase (trim y)"
proof -
  have "trim (p @ x @ q) = trim x"
    using assms(1,2) by (simp add: trim_pad_left trim_pad_right)
  moreover have "toLowerCase x = toLowerCase y"
    using assms(3) by (simp only: toLowerCase_eq_iff)
  ultimately show ?thesis
    by (simp add: trim_toLowerCase [symmetric])
qed

text \<open>
  C7. The lookup compares roll numbers by their trimmed text in small letters, and two
  roll numbers agree on it exactly when they are the same but for white space around
  them and the case of their letters; the exam name is compared exactly. The outcome is
  either a student of the store whose roll number is the same as the query in that
  sense and whose exam name is the one asked for, shown on the result page, or, when
  the store has no such student, the unchanged state with the notice that no record was
  found. A first student of the store that matches is the one found. White space around
  the query and the case of its letters do not change the outcome. The query 2024-001
  for Finals finds the record stored with a space on each side of 2024-001.
\<close>

theorem onCheckResult_lookup:
  "(toLowerCase (trim u) = toLowerCase (trim v) \<longleftrightarrow> same_roll u v)
   \<and> ((\<exists>s \<in> set (students a).
          same_roll (rollNo s) r \<and> examName s = ex
          \<and> onCheckResult r ex a = (a\<lparr>selected := Some s, page := ''result''\<rparr>, None))
       \<or> (\<forall>s \<in> set (students a). \<not> same_roll (rollNo s) r \<or> examName s \<noteq> ex)
          \<and> onCheckResult r ex a = (a, Some ''Record not found.''))
   \<and> (students a = st # rest \<and> same_roll (rollNo st) r \<and> examName st = ex \<longrightarrow>
        onCheckResult r ex a = (a\<lparr>selected := Some st, page := ''result''\<rparr>, None))
   \<and> (blank p \<and> blank q \<and> same_ignoring_case x y \<longrightarrow>
        onCheckResult (p @ x @ q) ex a = onCheckResult y ex a)
   \<and> (students a = st # rest \<and> rollNo st = '' 2024-001 '' \<and> examName st = ''Finals'' \<longrightarrow>
        onCheckResult ''2024-001'' ''Finals'' a = (a\<lparr>selected := Some st, page := ''result''\<rparr>, None))"
proof -
  let ?found = "\<lambda>s. (a\<lparr>selected := Some s, page := ''result''\<rparr>, None :: string option)"
  let ?match = "\<lambda>r st. toLowerCase (trim (rollNo st)) = toLowerCase (trim r) \<and> examName st = ex"
  have 1: "(\<exists>s \<in> set (students a).
          same_roll (rollNo s) r \<and> examName s = ex \<and> onCheckResult r ex a = ?found s)
       \<or> (\<forall>s \<in> set (students a). \<not> same_roll (rollNo s) r \<or> examName s \<noteq> ex)
          \<and> onCheckResult r ex a = (a, Some ''Record not found.'')"
  proof (cases "find (?match r) (students a)")
    case None
    then have "\<forall>s \<in> set (students a). \<not> same_roll (rollNo s) r \<or> examName s \<noteq> ex"
      by (auto simp: find_None_iff roll_key_eq_iff)
    moreover have "onCheckResult r ex a = (a, Some ''Record not found.'')"
      using None by (simp add: onCheckResult_def)
    ultimately show ?thesis
      by (intro disjI2 conjI)
  next
    case (Some s)
    then have "s \<in> set (students a)" "same_roll (rollNo s) r" "examName s = ex"
      by (auto simp: find_Some_iff roll_key_eq_iff)
    moreover have "onCheckResult r ex a = ?found s"
      using Some by (simp add: onCheckResult_def)
    ultimately show ?thesis
      by (intro disjI1 bexI [of _ s] conjI)
  qed
  have 2: "onCheckResult r ex a = ?found st"
    if "students a = st # rest" "same_roll (rollNo st) r" "examName st = ex"
    using that by (simp add: onCheckResult_def roll_key_eq_iff)
  have 3: "onCheckResult (p @ x @ q) ex a = onCheckResult y ex a"
    if "blank p" "blank q" "same_ignoring_case x y"
    using roll_key_padded [OF that] by (simp add: onCheckResult_def)
  have 4: "onCheckResult ''2024-001'' ''Finals'' a = ?found st"
    if "students a = st # rest" "rollNo st = '' 2024-001 ''" "examName st = ''Finals''"
  proof -
    have b: "blank '' ''"
      by (simp add: blank_def blank_chars_def)
    have "same_ignoring_case ''2024-001'' ''2024-001''"
      by (simp add: same_ignoring_case_def same_letter_def)
    with b have "toLowerCase (trim ('' '' @ ''2024-001'' @ '' '')) = toLowerCase (trim ''2024-001'')"
      by (intro roll_key_padded)
    then show ?thesis
      using that by (simp add: onCheckResult_def)
  qed
  from roll_key_eq_iff [of u v] 1 2 3 4 show ?thesis
    by blast
qed

theorem onCheckResult_lookup_witness:
  "onCheckResult ''aB-12x '' ''Finals'' app_letters =
     (app_letters\<lparr>selected := Some student_cy, page := ''result''\<rparr>, None)
   \<and> onCheckResult ''2024-001'' ''Finals'' app_two_exams =
       (app_two_exams\<lparr>selected := Some student_ann, page := ''result''\<rparr>, None)
   \<and> onCheckResult ''aB-13x'' ''Finals'' app_letters = (app_letters, Some ''Record not found.'')
   \<and> onCheckResult ''aB -12x'' ''Finals'' app_letters = (app_letters, Some ''Record not found.'')
   \<and> onCheckResult ''2024-001'' ''finals'' app_two_exams =
       (app_two_exams, Some ''Record not found.'')"
proof -
  have b: "blank [CHR 0x09, CHR 0x20]" "blank [CHR 0xA0]" "blank []" "blank '' ''"
    by (simp_all add: blank_def blank_chars_def)
  have bare: "bare ''Ab-12X''" "bare ''aB-12x''"
    by (simp_all add: bare_def blank_chars_def)
  have same: "same_ignoring_case ''Ab-12X'' ''aB-12x''"
    by (simp add: same_ignoring_case_def same_letter_def small_of_def capital_def)
  have roll: "same_roll (rollNo student_cy) ''aB-12x ''"
    unfolding same_roll_def
    by (intro exI [of _ "[CHR 0x09, CHR 0x20]"] exI [of _ "''Ab-12X''"] exI [of _ "[CHR 0xA0]"]
        exI [of _ "[]"] exI [of _ "''aB-12x''"] exI [of _ "'' ''"])
      (simp add: b bare same student_cy_def)
  have 1: "students app_letters = student_cy # [student_bo]" "examName student_cy = ''Finals''"
    by (simp_all add: app_letters_def student_cy_def)
  note r = onCheckResult_lookup
    [where a = app_letters and st = student_cy and rest = "[student_bo]" and r = "''aB-12x ''"
       and ex = "''Finals''", THEN conjunct2, THEN conjunct2, THEN conjunct1]
  from r 1 roll
  have x: "onCheckResult ''aB-12x '' ''Finals'' app_letters =
     (app_letters\<lparr>selected := Some student_cy, page := ''result''\<rparr>, None)"
    by blast
  have 2: "students app_two_exams = student_ann # [student_bo, student_ann]"
    "rollNo student_ann = '' 2024-001 ''" "examName student_ann = ''Finals''"
    by (simp_all add: app_two_exams_def student_ann_def)
  note e = onCheckResult_lookup
    [where a = app_two_exams and st = student_ann and rest = "[student_bo, student_ann]",
     THEN conjunct2, THEN conjunct2, THEN conjunct2, THEN conjunct2]
  from e 2
  have y: "onCheckResult ''2024-001'' ''Finals'' app_two_exams =
       (app_two_exams\<lparr>selected := Some student_ann, page := ''result''\<rparr>, None)"
    by blast
  have "onCheckResult ''aB-13x'' ''Finals'' app_letters = (app_letters, Some ''Record not found.'')"
    by code_simp
  moreover have "onCheckResult ''aB -12x'' ''Finals'' app_letters =
      (app_letters, Some ''Record not found.'')"
    by code_simp
  moreover have "onCheckResult ''2024-001'' ''finals'' app_two_exams =
       (app_two_exams, Some ''Record not found.'')"
    by (simp add: onCheckResult_def app_two_exams_def student_ann_def student_bo_def)
  ultimately show ?thesis
    using x y by simp
qed

section \<open>Loading at start\<close>

text \<open>
  C4, as the code has it. Loading fails exactly when an item that is there, and not the
  empty string, does not parse: the syntax error leaves the effect. Otherwise an item
  that is absent or empty leaves its collection empty, and an item that parses is
  restored as parsed; with both items absent or empty, loading succeeds with two empty
  collections.
\<close>

theorem App_mount_restore:
  "(let r = App_mount ps pe st initial_app;
        s = localStorage st ''student_db'';
        e = localStorage st ''exam_db''
    in ((\<exists>err. r = Inl err) \<longleftrightarrow>
          (\<exists>t. s = Some t \<and> t \<noteq> [] \<and> ps t = None) \<or> (\<exists>t. e = Some t \<and> t \<noteq> [] \<and> pe t = None))
     \<and> (\<forall>a. r = Inr a \<longrightarrow>
           ((s = None \<or> s = Some []) \<longrightarrow> students a = [])
         \<and> ((e = None \<or> e = Some []) \<longrightarrow> exams a = [])
         \<and> (\<forall>t ss. s = Some t \<and> t \<noteq> [] \<and> ps t = Some ss \<longrightarrow> students a = ss)
         \<and> (\<forall>t es. e = Some t \<and> t \<noteq> [] \<and> pe t = Some es \<longrightarrow> exams a = es))
     \<and> ((s = None \<or> s = Some []) \<and> (e = None \<or> e = Some []) \<longrightarrow>
           (\<exists>a. r = Inr a \<and> students a = [] \<and> exams a = [])))"
  unfolding Let_def App_mount_def load_item_def initial_app_def
  by (auto split: option.splits if_splits sum.splits)

theorem App_mount_restore_witness:
  "\<exists>a. App_mount parse_only_empty_array parse_only_empty_array storage_first_run initial_app = Inr a
       \<and> students a = [] \<and> exams a = []"
proof -
  have s: "localStorage storage_first_run ''student_db'' = None"
    by (simp add: storage_first_run_def)
  have e: "localStorage storage_first_run ''exam_db'' = Some ''[]''"
    by (simp add: storage_first_run_def)
  have p: "(parse_only_empty_array ''[]'' :: exam list option) = Some []"
    by (simp add: parse_only_empty_array_def)
  note r = App_mount_restore
    [where ps = parse_only_empty_array and pe = parse_only_empty_array and st = storage_first_run,
     unfolded Let_def]
  from r [THEN conjunct1] s e p
  have "\<not> (\<exists>err. App_mount parse_only_empty_array parse_only_empty_array storage_first_run
          initial_app = Inl err)"
    by simp
  then obtain a where a: "App_mount parse_only_empty_array parse_only_empty_array storage_first_run
          initial_app = Inr a"
    by (cases "App_mount parse_only_empty_array parse_only_empty_array storage_first_run initial_app") auto
  from r [THEN conjunct2, THEN conjunct1] a s e p
  have "students a = [] \<and> exams a = []"
    by auto
  with a show ?thesis
    by blast
qed

text \<open>
  C4 as stated fails: with a student collection cut short in the storage, loading ends
  in the syntax error and not in an empty collection.
\<close>

theorem corrupt_students_abort_mount:
  "App_mount parse_only_empty_array parse_only_empty_array storage_corrupt_students initial_app =
     Inl SyntaxError"
  by (simp add: App_mount_def load_item_def storage_corrupt_students_def parse_only_empty_array_def)

section \<open>A failed extraction\<close>

lemma extract_fails_iff:
  "extractStudentDetailsFromImage g parse img = Inl err \<longleftrightarrow>
     g img = Inl err \<or> (\<exists>t. g img = Inr t \<and> parse (or_str t ''{}'') = None \<and> err = SyntaxError)"
  by (auto simp: extractStudentDetailsFromImage_def split: sum.splits option.splits)

lemma scan_fails:
  assumes "(\<exists>err. extractStudentDetailsFromImage g parse (split_comma_1 url) = Inl err)
         \<or> (\<exists>x err. extractStudentDetailsFromImage g parse (split_comma_1 url) = Inr x
               \<and> set_examName (map_option name_e (currentExam d)) x = Inl err)"
  shows "AdminDashboard_scan g parse True url (a, d, sc) =
          (a, d, sc\<lparr>capturedImage := None, isScanning := False,
                    scan_error := Some ''AI analysis failed. Please try a clearer photo.''\<rparr>)"
  using assms by (auto simp: AdminDashboard_scan_def captureAndScan_def Let_def)

lemma scan_delivers:
  assumes "extractStudentDetailsFromImage g parse (split_comma_1 url) = Inr x"
    and "set_examName (map_option name_e (currentExam d)) x = Inr y"
  shows "AdminDashboard_scan g parse True url (a, d, sc) =
          (a, onScanComplete y d, sc\<lparr>capturedImage := Some url, isScanning := False\<rparr>)"
  using assms by (simp add: AdminDashboard_scan_def captureAndScan_def Let_def)

lemma set_examName_throws_iff:
  "(\<exists>err. set_examName n x = Inl err) \<longleftrightarrow> (\<exists>t. n = Some t \<and> t \<noteq> []) \<and> (x = Null \<or> x = Primitive)"
  by (auto simp: set_examName_def split: option.splits parsed.splits)

lemma set_examName_Object:
  "set_examName n (Object x) =
     Inr (Object (case n of Some t \<Rightarrow> if t \<noteq> [] then x\<lparr>examName_p := Some t\<rparr> else x | None \<Rightarrow> x))"
  by (simp add: set_examName_def split: option.splits)

lemma set_examName_no_name:
  "n = None \<or> n = Some [] \<Longrightarrow> set_examName n x = Inr x"
  by (auto simp: set_examName_def)

text \<open>
  C8, as the code has it. The extraction fails exactly on a rejected request and on a
  text that does not parse. The attempt fails when the extraction fails, and also when
  the response parses to \<^verbatim>\<open>null\<close> or to a primitive value and the folder has an exam name
  to set on it. A failed attempt ends with the error message set and no captured image;
  the form data and the rest of the dashboard are as they were (no record is
  delivered), and so is the store. A response that parses to an object is not checked
  against the schema: the object, with the exam name of the folder in place of its own,
  is delivered to the form. When the folder has no exam name, whatever was parsed is
  delivered as it is. Whatever the outcome, an attempt leaves the store unchanged.
\<close>

theorem failed_extraction_leaves_store:
  "(extractStudentDetailsFromImage g parse img = Inl err \<longleftrightarrow>
      g img = Inl err \<or> (\<exists>t. g img = Inr t \<and> parse (or_str t ''{}'') = None \<and> err = SyntaxError))
   \<and> ((\<exists>err. extractStudentDetailsFromImage g parse (split_comma_1 url) = Inl err)
       \<or> (\<exists>x t. extractStudentDetailsFromImage g parse (split_comma_1 url) = Inr x
             \<and> (x = Null \<or> x = Primitive)
             \<and> map_option name_e (currentExam d) = Some t \<and> t \<noteq> []) \<longrightarrow>
        AdminDashboard_scan g parse True url (a, d, sc) =
          (a, d, sc\<lparr>capturedImage := None, isScanning := False,
                    scan_error := Some ''AI analysis failed. Please try a clearer photo.''\<rparr>))
   \<and> (extractStudentDetailsFromImage g parse (split_comma_1 url) = Inr (Object x) \<longrightarrow>
        AdminDashboard_scan g parse True url (a, d, sc) =
          (a,
           onScanComplete
             (Object (case map_option name_e (currentExam d) of
                        Some t \<Rightarrow> if t \<noteq> [] then x\<lparr>examName_p := Some t\<rparr> else x
                      | None \<Rightarrow> x)) d,
           sc\<lparr>capturedImage := Some url, isScanning := False\<rparr>))
   \<and> (extractStudentDetailsFromImage g parse (split_comma_1 url) = Inr y
        \<and> (map_option name_e (currentExam d) = None \<or> map_option name_e (currentExam d) = Some []) \<longrightarrow>
        AdminDashboard_scan g parse True url (a, d, sc) =
          (a, onScanComplete y d, sc\<lparr>capturedImage := Some url, isScanning := False\<rparr>))
   \<and> fst (AdminDashboard_scan g parse refs url (a, d, sc)) = a"
proof -
  let ?n = "map_option name_e (currentExam d)"
  let ?failed = "(a, d, sc\<lparr>capturedImage := None, isScanning := False,
                    scan_error := Some ''AI analysis failed. Please try a clearer photo.''\<rparr>)"
  have 1: "AdminDashboard_scan g parse True url (a, d, sc) = ?failed"
    if "(\<exists>err. extractStudentDetailsFromImage g parse (split_comma_1 url) = Inl err)
       \<or> (\<exists>x t. extractStudentDetailsFromImage g parse (split_comma_1 url) = Inr x
             \<and> (x = Null \<or> x = Primitive) \<and> ?n = Some t \<and> t \<noteq> [])"
  proof -
    from that have "(\<exists>err. extractStudentDetailsFromImage g parse (split_comma_1 url) = Inl err)
         \<or> (\<exists>x err. extractStudentDetailsFromImage g parse (split_comma_1 url) = Inr x
               \<and> set_examName ?n x = Inl err)"
      using set_examName_throws_iff [of ?n] by blast
    then show ?thesis
      by (rule scan_fails)
  qed
  have 2: "AdminDashboard_scan g parse True url (a, d, sc) =
          (a,
           onScanComplete
             (Object (case ?n of
                        Some t \<Rightarrow> if t \<noteq> [] then x\<lparr>examName_p := Some t\<rparr> else x
                      | None \<Rightarrow> x)) d,
           sc\<lparr>capturedImage := Some url, isScanning := False\<rparr>)"
    if "extractStudentDetailsFromImage g parse (split_comma_1 url) = Inr (Object x)"
    using that set_examName_Object [of ?n x] by (rule scan_delivers)
  have 3: "AdminDashboard_scan g parse True url (a, d, sc) =
          (a, onScanComplete y d, sc\<lparr>capturedImage := Some url, isScanning := False\<rparr>)"
    if "extractStudentDetailsFromImage g parse (split_comma_1 url) = Inr y" "?n = None \<or> ?n = Some []"
    using that(1) set_examName_no_name [OF that(2), of y] by (rule scan_delivers)
  have 4: "fst (AdminDashboard_scan g parse refs url (a, d, sc)) = a"
    by (simp add: AdminDashboard_scan_def Let_def)
  from extract_fails_iff [of g parse img err] 1 2 3 4 show ?thesis
    by blast
qed

theorem failed_extraction_leaves_store_witness:
  "AdminDashboard_scan respond_rejected parse_examples True ''data:image/jpeg;base64,AAAA''
     (app_two_exams, dashboard_finals, scanner_idle) =
   (app_two_exams, dashboard_finals,
    scanner_idle\<lparr>scan_error := Some ''AI analysis failed. Please try a clearer photo.''\<rparr>)
   \<and> AdminDashboard_scan respond_null parse_examples True ''data:image/jpeg;base64,AAAA''
       (app_two_exams, dashboard_finals, scanner_idle) =
     (app_two_exams, dashboard_finals,
      scanner_idle\<lparr>scan_error := Some ''AI analysis failed. Please try a clearer photo.''\<rparr>)"
proof -
  have 1: "extractStudentDetailsFromImage respond_rejected parse_examples
          (split_comma_1 ''data:image/jpeg;base64,AAAA'') = Inl (Thrown ''503'')"
    by (simp add: extractStudentDetailsFromImage_def respond_rejected_def)
  have 2: "extractStudentDetailsFromImage respond_null parse_examples
          (split_comma_1 ''data:image/jpeg;base64,AAAA'') = Inr Null"
    by (simp add: extractStudentDetailsFromImage_def respond_null_def parse_examples_def or_str_def)
  have 3: "map_option name_e (currentExam dashboard_finals) = Some ''Finals''"
    by (simp add: dashboard_finals_def exam_finals_def)
  note r1 = failed_extraction_leaves_store
    [where g = respond_rejected and url = "''data:image/jpeg;base64,AAAA''" and parse = parse_examples
       and a = app_two_exams and d = dashboard_finals and sc = scanner_idle,
     THEN conjunct2, THEN conjunct1]
  note r2 = failed_extraction_leaves_store
    [where g = respond_null and url = "''data:image/jpeg;base64,AAAA''" and parse = parse_examples
       and a = app_two_exams and d = dashboard_finals and sc = scanner_idle,
     THEN conjunct2, THEN conjunct1]
  from r1 1
  have a: "AdminDashboard_scan respond_rejected parse_examples True ''data:image/jpeg;base64,AAAA''
     (app_two_exams, dashboard_finals, scanner_idle) =
     (app_two_exams, dashboard_finals,
      scanner_idle\<lparr>capturedImage := None, isScanning := False,
         scan_error := Some ''AI analysis failed. Please try a clearer photo.''\<rparr>)"
    by blast
  from r2 2 3
  have b: "AdminDashboard_scan respond_null parse_examples True ''data:image/jpeg;base64,AAAA''
     (app_two_exams, dashboard_finals, scanner_idle) =
     (app_two_exams, dashboard_finals,
      scanner_idle\<lparr>capturedImage := None, isScanning := False,
         scan_error := Some ''AI analysis failed. Please try a clearer photo.''\<rparr>)"
    by blast
  from a b show ?thesis
    by (simp add: scanner_idle_def)
qed

text \<open>
  C8 as stated fails for a response that does not conform to the schema. A response
  with no text is read as the empty object, and the response \<^verbatim>\<open>{}\<close> is the empty object:
  either way the attempt ends with no error message, and a record with no field but the
  exam name of the folder is delivered to the form.
\<close>

theorem empty_response_is_delivered:
  "AdminDashboard_scan respond_without_text parse_examples True ''data:image/jpeg;base64,AAAA''
     (app_two_exams, dashboard_finals, scanner_idle) =
   (app_two_exams,
    dashboard_finals\<lparr>formData := Object (no_fields\<lparr>examName_p := Some ''Finals''\<rparr>),
                      showScanner := False, showStudentModal := True\<rparr>,
    scanner_idle\<lparr>capturedImage := Some ''data:image/jpeg;base64,AAAA''\<rparr>)
   \<and> AdminDashboard_scan respond_empty_object parse_examples True ''data:image/jpeg;base64,AAAA''
       (app_two_exams, dashboard_finals, scanner_idle) =
     (app_two_exams,
      dashboard_finals\<lparr>formData := Object (no_fields\<lparr>examName_p := Some ''Finals''\<rparr>),
                        showScanner := False, showStudentModal := True\<rparr>,
      scanner_idle\<lparr>capturedImage := Some ''data:image/jpeg;base64,AAAA''\<rparr>)"
  by (simp add: AdminDashboard_scan_def captureAndScan_def extractStudentDetailsFromImage_def
      respond_without_text_def respond_empty_object_def parse_examples_def or_str_def
      onScanComplete_def set_examName_def dashboard_finals_def exam_finals_def scanner_idle_def
      Let_def)

end
